theory Spec2Isabelle
  imports Complex_Main "HOL-Library.Sublist" "HOL-Library.Multiset" "HOL-Library.Signed_Division"
begin

section \<open>Conventions of the embedding\<close>

text \<open>
  The analytics core of the blog CRM service is written in Go. The embedding follows the
  source function by function and keeps its names.

  \<^item> Go \<open>int\<close> is modelled by \<open>int\<close>, \<open>uint\<close> by \<open>nat\<close>. The calculators only compare
    integers, count list elements and convert them to \<open>float64\<close>; no integer overflow
    occurs on the inputs the theorems speak about.
  \<^item> A finite \<open>float64\<close> is modelled by the real number it denotes: arithmetic is exact,
    without rounding and without overflow. The \<open>float64\<close> fields of the inputs are finite
    numbers (type \<open>real\<close>), except \<open>LoadTime\<close>, which the analyzer only compares. The
    special values that IEEE 754 arithmetic produces when the source divides by a value
    that can be zero are modelled explicitly by the type \<open>float64\<close> below.
  \<^item> \<open>time.Time\<close> is an instant in UTC, counted in nanoseconds since the zero time
    (January 1, year 1, 00:00:00 UTC); \<open>time.Duration\<close> is a number of nanoseconds in
    the 64-bit signed range. The wall clock read by \<open>time.Now\<close> and \<open>time.Since\<close> is an
    explicit argument \<open>now\<close>.
  \<^item> A Go string is a list of bytes (\<open>string\<close>); a slice is a list.
\<close>

datatype float64 = Finite real | PosInf | NegInf | NaN

text \<open>IEEE division of two finite numbers: a zero divisor gives an infinity or NaN.\<close>

definition fdiv :: "real \<Rightarrow> real \<Rightarrow> float64" where
  "fdiv x y =
     (if y \<noteq> 0 then Finite (x / y)
      else if x > 0 then PosInf
      else if x < 0 then NegInf
      else NaN)"

text \<open>Comparisons of a \<open>float64\<close> with a finite number; every comparison with NaN is false.\<close>

fun fge :: "float64 \<Rightarrow> real \<Rightarrow> bool" where
  "fge (Finite x) c = (x \<ge> c)"
| "fge PosInf c = True"
| "fge NegInf c = False"
| "fge NaN c = False"

fun fle :: "float64 \<Rightarrow> real \<Rightarrow> bool" where
  "fle (Finite x) c = (x \<le> c)"
| "fle PosInf c = False"
| "fle NegInf c = True"
| "fle NaN c = False"

fun fgt :: "float64 \<Rightarrow> real \<Rightarrow> bool" where
  "fgt (Finite x) c = (x > c)"
| "fgt PosInf c = True"
| "fgt NegInf c = False"
| "fgt NaN c = False"

fun flt :: "float64 \<Rightarrow> real \<Rightarrow> bool" where
  "flt (Finite x) c = (x < c)"
| "flt PosInf c = False"
| "flt NegInf c = True"
| "flt NaN c = False"

type_synonym Time = int
type_synonym Duration = int

text \<open>
  Arithmetic on \<open>float64\<close> values that may be special, by the rules of IEEE 754: NaN
  propagates, \<open>Inf - Inf\<close>, \<open>0 * Inf\<close> and \<open>Inf / Inf\<close> are NaN. Signed zeros are not
  distinguished; a zero divisor counts as \<open>+0\<close>, which is what the conversion of the
  integer 0 and the difference of two equal numbers give.
\<close>

fun fadd :: "float64 \<Rightarrow> float64 \<Rightarrow> float64" where
  "fadd (Finite x) (Finite y) = Finite (x + y)"
| "fadd NaN y = NaN"
| "fadd x NaN = NaN"
| "fadd PosInf NegInf = NaN"
| "fadd NegInf PosInf = NaN"
| "fadd PosInf y = PosInf"
| "fadd NegInf y = NegInf"
| "fadd (Finite x) PosInf = PosInf"
| "fadd (Finite x) NegInf = NegInf"

fun fneg :: "float64 \<Rightarrow> float64" where
  "fneg (Finite x) = Finite (- x)"
| "fneg PosInf = NegInf"
| "fneg NegInf = PosInf"
| "fneg NaN = NaN"

definition fsub :: "float64 \<Rightarrow> float64 \<Rightarrow> float64" where
  "fsub x y = fadd x (fneg y)"

text \<open>The product of an infinity with a finite number takes the sign of the product.\<close>

definition signedInf :: "real \<Rightarrow> float64" where
  "signedInf s = (if s > 0 then PosInf else if s < 0 then NegInf else NaN)"

fun fmul :: "float64 \<Rightarrow> float64 \<Rightarrow> float64" where
  "fmul (Finite x) (Finite y) = Finite (x * y)"
| "fmul NaN y = NaN"
| "fmul x NaN = NaN"
| "fmul PosInf PosInf = PosInf"
| "fmul PosInf NegInf = NegInf"
| "fmul NegInf PosInf = NegInf"
| "fmul NegInf NegInf = PosInf"
| "fmul PosInf (Finite y) = signedInf y"
| "fmul NegInf (Finite y) = signedInf (- y)"
| "fmul (Finite x) PosInf = signedInf x"
| "fmul (Finite x) NegInf = signedInf (- x)"

fun fquot :: "float64 \<Rightarrow> float64 \<Rightarrow> float64" where
  "fquot (Finite x) (Finite y) = fdiv x y"
| "fquot NaN y = NaN"
| "fquot x NaN = NaN"
| "fquot (Finite x) PosInf = Finite 0"
| "fquot (Finite x) NegInf = Finite 0"
| "fquot PosInf (Finite y) = (if y \<ge> 0 then PosInf else NegInf)"
| "fquot NegInf (Finite y) = (if y \<ge> 0 then NegInf else PosInf)"
| "fquot PosInf y = NaN"
| "fquot NegInf y = NaN"

section \<open>Go library functions used by the calculators\<close>

text \<open>
  The functions of package \<open>strings\<close> are modelled on bytes. \<open>strings.ToLower\<close> maps
  the ASCII letters \<open>A\<close> to \<open>Z\<close>; bytes outside ASCII are left as they are (Go also maps
  the upper-case letters of other scripts). The theorems that speak about all inputs do
  not depend on how a particular text is lower-cased.
\<close>

definition toLowerByte :: "char \<Rightarrow> char" where
  "toLowerByte c =
     (let n = (of_char c :: nat) in if 65 \<le> n \<and> n \<le> 90 then char_of (n + 32) else c)"

definition ToLower :: "string \<Rightarrow> string" where
  "ToLower s = map toLowerByte s"

text \<open>\<open>strings.Contains s substr\<close>: \<open>substr\<close> occurs in \<open>s\<close> as a contiguous block.\<close>

fun Contains :: "string \<Rightarrow> string \<Rightarrow> bool" where
  "Contains [] substr = (substr = [])"
| "Contains (c # s) substr = (prefix substr (c # s) \<or> Contains s substr)"

text \<open>\<open>math.Min\<close> and \<open>math.Max\<close> on finite numbers.\<close>

definition Min64 :: "real \<Rightarrow> real \<Rightarrow> real" where
  "Min64 x y = (if x < y then x else y)"

definition Max64 :: "real \<Rightarrow> real \<Rightarrow> real" where
  "Max64 x y = (if x > y then x else y)"

text \<open>The conversion \<open>int(x)\<close> of a \<open>float64\<close> discards the fraction (rounds toward zero).\<close>

definition toInt :: "real \<Rightarrow> int" where
  "toInt x = (if x \<ge> 0 then \<lfloor>x\<rfloor> else \<lceil>x\<rceil>)"

text \<open>
  Package \<open>time\<close>. \<open>t.Sub(u)\<close> is the difference of two instants, saturated to the range
  of \<open>Duration\<close>; \<open>d.Hours()\<close> splits the duration into whole hours and a remainder, both
  with Go's truncating integer division.
\<close>

definition minDuration :: Duration where "minDuration = - (2 ^ 63)"
definition maxDuration :: Duration where "maxDuration = 2 ^ 63 - 1"

definition Hour :: Duration where "Hour = 3600000000000"

definition Sub :: "Time \<Rightarrow> Time \<Rightarrow> Duration" where
  "Sub t u =
     (let d = t - u
      in if d < minDuration then minDuration
         else if d > maxDuration then maxDuration
         else d)"

definition Hours :: "Duration \<Rightarrow> real" where
  "Hours d =
     (let hour = d sdiv Hour; nsec = d smod Hour
      in real_of_int hour + real_of_int nsec / (60 * 60 * 1000000000))"



text \<open>
  More of package \<open>strings\<close>. \<open>Index\<close> is the byte index of the first occurrence or -1,
  \<open>LastIndex\<close> that of the last; \<open>Count\<close> counts occurrences that do not overlap (for an
  empty \<open>substr\<close> Go returns the number of characters plus 1; the calculators never ask
  for that). \<open>ReplaceAll\<close> is only called to replace the space; an empty \<open>old\<close>, for which
  Go inserts \<open>new\<close> around every character, does not occur.
\<close>

fun indexFrom :: "int \<Rightarrow> string \<Rightarrow> string \<Rightarrow> int" where
  "indexFrom i [] substr = (if substr = [] then i else -1)"
| "indexFrom i (c # s) substr =
     (if prefix substr (c # s) then i else indexFrom (i + 1) s substr)"

definition Index :: "string \<Rightarrow> string \<Rightarrow> int" where
  "Index s substr = indexFrom 0 s substr"

fun lastIndexFrom :: "int \<Rightarrow> int \<Rightarrow> string \<Rightarrow> string \<Rightarrow> int" where
  "lastIndexFrom i found [] substr = (if substr = [] then i else found)"
| "lastIndexFrom i found (c # s) substr =
     lastIndexFrom (i + 1) (if prefix substr (c # s) then i else found) s substr"

definition LastIndex :: "string \<Rightarrow> string \<Rightarrow> int" where
  "LastIndex s substr = lastIndexFrom 0 (-1) s substr"

function Count :: "string \<Rightarrow> string \<Rightarrow> int" where
  "Count s substr =
     (if substr = [] then int (length s) + 1
      else if s = [] then 0
      else if prefix substr s then 1 + Count (drop (length substr) s) substr
      else Count (tl s) substr)"
  by pat_completeness auto
termination
  by (relation "measure (\<lambda>(s, substr). length s)") auto

declare Count.simps [simp del]

definition HasSuffix :: "string \<Rightarrow> string \<Rightarrow> bool" where
  "HasSuffix s sfx = suffix sfx s"

function ReplaceAll :: "string \<Rightarrow> string \<Rightarrow> string \<Rightarrow> string" where
  "ReplaceAll s old new =
     (if old = [] \<or> s = [] then s
      else if prefix old s then new @ ReplaceAll (drop (length old) s) old new
      else hd s # ReplaceAll (tl s) old new)"
  by pat_completeness auto
termination
  by (relation "measure (\<lambda>(s, old, new). length s)") auto

declare ReplaceAll.simps [simp del]

text \<open>
  The maximal runs of characters that are not separators: what \<open>strings.Fields\<close>
  returns for the white space of \<open>unicode.IsSpace\<close>, and what a regular expression
  \<open>C+\<close> over a character class \<open>C\<close> matches from left to right when the separators are
  the characters outside \<open>C\<close>.
\<close>

function fieldsBy :: "(char \<Rightarrow> bool) \<Rightarrow> string \<Rightarrow> string list" where
  "fieldsBy sep [] = []"
| "fieldsBy sep (c # cs) =
     (if sep c then fieldsBy sep cs
      else (c # takeWhile (\<lambda>x. \<not> sep x) cs) # fieldsBy sep (dropWhile (\<lambda>x. \<not> sep x) cs))"
  by pat_completeness auto
termination
  by (relation "measure (\<lambda>(sep, s). length s)")
     (auto simp: length_dropWhile_le intro: le_imp_less_Suc)

text \<open>
  White space. The class \<open>\s\<close> of package \<open>regexp\<close> is tab, newline, form feed, carriage
  return and space; \<open>unicode.IsSpace\<close> adds the vertical tab (and, outside ASCII, a few
  more characters that are not modelled).
\<close>

definition isRegexpSpace :: "char \<Rightarrow> bool" where
  "isRegexpSpace c = (c \<in> set [CHR 0x09, CHR 0x0A, CHR 0x0C, CHR 0x0D, CHR 0x20])"

definition isSpace :: "char \<Rightarrow> bool" where
  "isSpace c = (c \<in> set [CHR 0x09, CHR 0x0A, CHR 0x0B, CHR 0x0C, CHR 0x0D, CHR 0x20])"

definition Fields :: "string \<Rightarrow> string list" where
  "Fields s = fieldsBy isSpace s"

definition TrimSpace :: "string \<Rightarrow> string" where
  "TrimSpace s = rev (dropWhile isSpace (rev (dropWhile isSpace s)))"

fun Join :: "string list \<Rightarrow> string \<Rightarrow> string" where
  "Join [] sep = []"
| "Join [w] sep = w"
| "Join (w # ws) sep = w @ sep @ Join ws sep"

definition isLowerLetter :: "char \<Rightarrow> bool" where
  "isLowerLetter c = (97 \<le> (of_char c :: nat) \<and> (of_char c :: nat) \<le> 122)"

definition isDigit :: "char \<Rightarrow> bool" where
  "isDigit c = (48 \<le> (of_char c :: nat) \<and> (of_char c :: nat) \<le> 57)"

section \<open>Lead scorer (package analytics)\<close>


record Behavior =
  PageViews :: int
  TotalTimeOnSite :: int
  VisitCount :: int
  BlogPostsRead :: int
  Downloads :: int
  VideoWatchTime :: int
  SocialEngagements :: int
  ServicePagesVisited :: bool
  PricingPagesVisited :: bool
  ContactPagesVisited :: bool
  SearchQueries :: int
  LastActivity :: Time










text \<open>
  The quotient \<open>float64(PageViews) / float64(VisitCount)\<close> is computed without a test of
  the divisor, so it is a \<open>float64\<close> that can be infinite or NaN.
\<close>

definition avgPagesPerSession :: "Behavior \<Rightarrow> float64" where
  "avgPagesPerSession behavior =
     fdiv (real_of_int (PageViews behavior)) (real_of_int (VisitCount behavior))"

definition scoreWebsiteActivity :: "Behavior \<Rightarrow> real" where
  "scoreWebsiteActivity behavior =
     (let score = 0;
          avg = avgPagesPerSession behavior;
          score = (if fge avg 5 then score + 25.0
                   else if fge avg 3 then score + 15.0
                   else if fge avg 2 then score + 10.0
                   else score);
          score = (if ServicePagesVisited behavior then score + 30.0 else score);
          score = (if PricingPagesVisited behavior then score + 35.0 else score);
          score = (if ContactPagesVisited behavior then score + 20.0 else score);
          score = score + real_of_int (SearchQueries behavior) * 5.0
      in Min64 score 100.0)"


















section \<open>SEO analyzer (pkg/seo/analyzer.go)\<close>

text \<open>
  The structs of the analyzer are declared in the source tree after the functions of
  pkg/logger/logger.go, under the heading ``SEO Analysis Models''. The records follow
  these declarations field by field; \<open>uint\<close> is \<open>nat\<close>, \<open>int\<close> and \<open>int64\<close> are \<open>int\<close>. Where
  two structs use the same field name the record fields carry a prefix.
\<close>

record HeadingData =
  Level :: int
  hText :: string

record LinkData =
  lURL :: string
  AnchorText :: string
  IsDoFollow :: bool
  IsInternal :: bool

record ImageData =
  iURL :: string
  FileName :: string
  AltText :: string
  iTitle :: string
  iSize :: int

record ContentData =
  cID :: nat
  cTitle :: string
  cURL :: string
  cMetaDescription :: string
  Content :: string
  cPrimaryKeyword :: string
  cSecondaryKeywords :: "string list"
  cHeadings :: "HeadingData list"
  cInternalLinks :: "LinkData list"
  cExternalLinks :: "LinkData list"
  cImages :: "ImageData list"
  SchemaMarkup :: string
  CanonicalURL :: string
  LoadTime :: float64
  MobileResponsive :: bool

text \<open>
  The load time is an input and may be any \<open>float64\<close>. Each \<open>float64\<close> field of the result
  is computed from integers by operations that stay finite (a quotient is taken only
  behind a test of its divisor), and is a \<open>real\<close>.

  Not modelled: the two fields \<open>MostUsedAnchorText\<close> and \<open>OverOptimizedAnchors\<close> of
  \<open>AnchorTextAnalysis\<close>, whose values depend on the order in which Go iterates over a map.
\<close>

record TitleAnalysis =
  tTitle :: string
  tLength :: int
  tLengthScore :: int
  tLengthStatus :: string
  tContainsPrimaryKeyword :: bool
  KeywordPosition :: string
  tKeywordScore :: int
  PowerWords :: "string list"
  PowerWordScore :: real

record MetaAnalysis =
  mMetaDescription :: string
  mLength :: int
  mLengthScore :: int
  mLengthStatus :: string
  mContainsPrimaryKeyword :: bool
  mKeywordScore :: int
  CallToAction :: bool
  CTAScore :: int

record StructureAnalysis =
  sWordCount :: int
  WordCountScore :: int
  WordCountStatus :: string
  sHeadings :: "HeadingData list"
  H1Count :: int
  H1Score :: int
  H1Status :: string
  H2Count :: int
  H2Score :: int
  H2Status :: string
  H3Count :: int
  AvgWordsPerParagraph :: real
  ParagraphScore :: int

record SecondaryKeywordData =
  Keyword :: string
  kCount :: int
  Density :: real

record KeywordAnalysis =
  PrimaryKeyword :: string
  PrimaryKeywordCount :: int
  PrimaryKeywordDensity :: real
  PrimaryKeywordScore :: int
  PrimaryKeywordStatus :: string
  PrimaryKeywordInIntro :: bool
  IntroKeywordScore :: int
  SecondaryKeywords :: "string list"
  SecondaryKeywordData :: "SecondaryKeywordData list"
  LSIKeywords :: "string list"
  LSIScore :: real

record SentenceLengthAnalysis =
  AverageLength :: real
  ShortestSentence :: int
  LongestSentence :: int
  ShortSentences :: int
  MediumSentences :: int
  LongSentences :: int

record ReadabilityAnalysis =
  SentenceCount :: int
  rWordCount :: int
  SyllableCount :: int
  AvgWordsPerSentence :: real
  AvgSyllablesPerWord :: real
  FleschScore :: real
  FleschKincaidGrade :: real
  ReadingLevel :: string
  ReadabilityScore :: int
  SentenceLengthAnalysis :: SentenceLengthAnalysis
  TransitionWords :: "string list"
  TransitionWordScore :: real

record URLAnalysis =
  uURL :: string
  uLength :: int
  uLengthScore :: int
  uLengthStatus :: string
  ContainsKeyword :: bool
  uKeywordScore :: int
  Structure :: string
  StructureScore :: int

record TechnicalAnalysis =
  URLAnalysis :: URLAnalysis
  HasSchemaMarkup :: bool
  SchemaScore :: int
  HasCanonicalURL :: bool
  CanonicalScore :: int
  LoadTimeScore :: int
  LoadTimeStatus :: string
  IsMobileResponsive :: bool
  MobileScore :: int

record AnchorTextAnalysis =
  AnchorTextVariety :: int
  MaxAnchorFrequency :: int
  DiversityScore :: real

record LinkAnalysis =
  InternalLinks :: "LinkData list"
  ExternalLinks :: "LinkData list"
  InternalLinkCount :: int
  ExternalLinkCount :: int
  InternalLinkScore :: int
  InternalLinkStatus :: string
  ExternalLinkScore :: int
  ExternalLinkStatus :: string
  AnchorTextAnalysis :: AnchorTextAnalysis

record ImageAnalysis =
  Images :: "ImageData list"
  ImageCount :: int
  ImagesWithAltText :: int
  ImagesWithTitle :: int
  OptimizedFileNames :: int
  AltTextScore :: real
  TitleScore :: real
  FileNameScore :: real
  ImageScore :: real

record Opportunity =
  oType :: string
  Priority :: string
  Impact :: string
  Effort :: string
  oTitle :: string
  Description :: string
  Action :: string

record SEOAnalysis =
  ContentID :: nat
  aTitle :: string
  aURL :: string
  AnalyzedAt :: Time
  OverallScore :: int
  TitleAnalysis :: TitleAnalysis
  MetaAnalysis :: MetaAnalysis
  StructureAnalysis :: StructureAnalysis
  KeywordAnalysis :: KeywordAnalysis
  ReadabilityAnalysis :: ReadabilityAnalysis
  TechnicalAnalysis :: TechnicalAnalysis
  LinkAnalysis :: LinkAnalysis
  ImageAnalysis :: ImageAnalysis
  Recommendations :: "string list"
  Opportunities :: "Opportunity list"

subsection \<open>Helper methods\<close>

text \<open>\<open>countWords\<close>: the number of matches of the regular expression \<open>\S+\<close>.\<close>

definition countWords :: "string \<Rightarrow> int" where
  "countWords text = int (length (fieldsBy isRegexpSpace text))"

text \<open>
  \<open>countSentences\<close>: splitting at the matches of \<open>[.!?]+\<close> gives one piece more than
  there are matches, also for the empty text (one piece, no match).
\<close>

definition isSentenceEnd :: "char \<Rightarrow> bool" where
  "isSentenceEnd c = (c \<in> set [CHR ''.'', CHR ''!'', CHR ''?''])"

definition countSentences :: "string \<Rightarrow> int" where
  "countSentences text =
     (let sentences = int (length (fieldsBy (\<lambda>c. \<not> isSentenceEnd c) text)) + 1
      in sentences - 1)"

text \<open>
  The syllables of one word: the characters outside \<open>a\<close> to \<open>z\<close> are removed first, so
  upper-case letters are dropped, not lower-cased; an empty rest counts nothing.
\<close>

definition isVowel :: "char \<Rightarrow> bool" where
  "isVowel c = (c \<in> set ''aeiouy'')"

fun vowelGroups :: "bool \<Rightarrow> string \<Rightarrow> int" where
  "vowelGroups prevWasVowel [] = 0"
| "vowelGroups prevWasVowel (c # cs) =
     (if isVowel c \<and> \<not> prevWasVowel then 1 else 0) + vowelGroups (isVowel c) cs"

definition wordSyllables :: "string \<Rightarrow> int" where
  "wordSyllables word0 =
     (let word = ToLower (filter isLowerLetter word0)
      in if word = '''' then 0
         else (let syllables = vowelGroups False word;
                   syllables = (if HasSuffix word ''e'' \<and> syllables > 1
                                then syllables - 1 else syllables);
                   syllables = (if syllables = 0 then 1 else syllables)
               in syllables))"

definition countSyllables :: "string \<Rightarrow> int" where
  "countSyllables text =
     foldl (\<lambda>totalSyllables word. totalSyllables + wordSyllables word) 0 (Fields text)"

definition getFirstNWords :: "string \<Rightarrow> nat \<Rightarrow> string" where
  "getFirstNWords text n =
     (let words = Fields text
      in if length words \<le> n then text else Join (take n words) '' '')"

text \<open>
  \<open>analyzeSentenceLengths\<close> splits the text at the matches of \<open>[.!?]+\<close> and keeps the word
  counts of the pieces that have words; the pieces without words, among them the empty
  pieces that \<open>Split\<close> returns at the ends of the text, count nothing.
\<close>

definition zeroSentenceLengthAnalysis :: SentenceLengthAnalysis where
  "zeroSentenceLengthAnalysis =
     \<lparr> AverageLength = 0, ShortestSentence = 0, LongestSentence = 0, ShortSentences = 0,
       MediumSentences = 0, LongSentences = 0 \<rparr>"

definition analyzeSentenceLengths :: "string \<Rightarrow> SentenceLengthAnalysis" where
  "analyzeSentenceLengths content =
     (let lengths = filter (\<lambda>n. n > 0)
                      (map (\<lambda>sentence. int (length (Fields (TrimSpace sentence))))
                         (fieldsBy isSentenceEnd content))
      in if length lengths = 0 then zeroSentenceLengthAnalysis
         else \<lparr> AverageLength =
                  real_of_int (foldl (\<lambda>sum len. sum + len) 0 lengths) / real (length lengths),
                ShortestSentence =
                  foldl (\<lambda>shortest len. if shortest = 0 \<or> len < shortest then len else shortest)
                    0 lengths,
                LongestSentence =
                  foldl (\<lambda>longest len. if len > longest then len else longest) 0 lengths,
                ShortSentences = int (length (filter (\<lambda>len. len \<le> 10) lengths)),
                MediumSentences =
                  int (length (filter (\<lambda>len. \<not> len \<le> 10 \<and> len \<le> 20) lengths)),
                LongSentences =
                  int (length (filter (\<lambda>len. \<not> len \<le> 10 \<and> \<not> len \<le> 20) lengths)) \<rparr>)"

definition identifyLSIKeywords :: "string \<Rightarrow> string \<Rightarrow> string list" where
  "identifyLSIKeywords content primaryKeyword =
     (let primaryLower = ToLower primaryKeyword;
          contentLower = ToLower content
      in if Contains primaryLower ''seo''
         then filter (Contains contentLower)
                [''search engine'', ''optimization'', ''ranking'', ''keywords'', ''google'',
                 ''content marketing'', ''backlinks'', ''meta tags'']
         else [])"

text \<open>
  The regular expression \<open>^https?://[^/]+/[a-z0-9-]+/?$\<close>: the scheme, a host of at least
  one character other than the slash, a slash, a path segment of at least one lower-case
  letter, digit or hyphen, and at most one closing slash.
\<close>

definition isSlugChar :: "char \<Rightarrow> bool" where
  "isSlugChar c = (isLowerLetter c \<or> isDigit c \<or> c = CHR ''-'')"

definition afterScheme :: "string \<Rightarrow> string option" where
  "afterScheme s =
     (if prefix ''https://'' s then Some (drop 8 s)
      else if prefix ''http://'' s then Some (drop 7 s)
      else None)"

definition matchesCleanURL :: "string \<Rightarrow> bool" where
  "matchesCleanURL s =
     (case afterScheme s of
        None \<Rightarrow> False
      | Some rest \<Rightarrow>
          (let host = takeWhile (\<lambda>c. c \<noteq> CHR ''/'') rest;
               afterHost = dropWhile (\<lambda>c. c \<noteq> CHR ''/'') rest
           in host \<noteq> [] \<and> afterHost \<noteq> [] \<and>
              (let segment = takeWhile isSlugChar (tl afterHost);
                   ending = dropWhile isSlugChar (tl afterHost)
               in segment \<noteq> [] \<and> (ending = [] \<or> ending = ''/''))))"

definition analyzeURL :: "string \<Rightarrow> string \<Rightarrow> URLAnalysis" where
  "analyzeURL url primaryKeyword =
     (let len = int (length url);
          (lengthScore, lengthStatus) =
            (if len \<le> 75 then (100, ''optimal'')
             else if len \<le> 100 then (80, ''good'')
             else (60, ''too_long''));
          (containsKeyword, keywordScore) =
            (if primaryKeyword \<noteq> ''''
             then (let urlLower = ToLower url;
                       keywordLower = ToLower primaryKeyword;
                       keywordSlug = ReplaceAll keywordLower '' '' ''-''
                   in if Contains urlLower keywordSlug \<or> Contains urlLower keywordLower
                      then (True, 100) else (False, 30))
             else (False, 0));
          (structureScore, structure) =
            (if matchesCleanURL (ToLower url) then (100, ''clean'') else (70, ''complex''))
      in \<lparr> uURL = url, uLength = len, uLengthScore = lengthScore,
           uLengthStatus = lengthStatus, ContainsKeyword = containsKeyword,
           uKeywordScore = keywordScore, Structure = structure,
           StructureScore = structureScore \<rparr>)"

text \<open>
  \<open>analyzeAnchorTexts\<close> counts the anchor texts in a map. The keys of the map are the
  distinct non-empty normalised anchor texts; the highest frequency does not depend on
  the order of the iteration.
\<close>

definition zeroAnchorTextAnalysis :: AnchorTextAnalysis where
  "zeroAnchorTextAnalysis =
     \<lparr> AnchorTextVariety = 0, MaxAnchorFrequency = 0, DiversityScore = 0 \<rparr>"

definition analyzeAnchorTexts :: "LinkData list \<Rightarrow> AnchorTextAnalysis" where
  "analyzeAnchorTexts links =
     (if length links = 0 then zeroAnchorTextAnalysis
      else (let totalLinks = int (length links);
                texts = filter (\<lambda>anchorText. anchorText \<noteq> '''')
                          (map (\<lambda>link. ToLower (TrimSpace (AnchorText link))) links);
                anchorTexts = remdups texts;
                maxFrequency =
                  foldl (\<lambda>maxFrequency anchorText.
                           (let frequency = (int (count_list texts anchorText) * 100) div totalLinks
                            in if frequency > maxFrequency then frequency else maxFrequency))
                    0 anchorTexts;
                variety = int (length anchorTexts)
            in \<lparr> AnchorTextVariety = variety,
                 MaxAnchorFrequency = maxFrequency,
                 DiversityScore =
                   (if totalLinks > 0
                    then Min64 (real_of_int variety / real_of_int totalLinks * 100) 100
                    else 0) \<rparr>))"

text \<open>
  \<open>isOptimizedFileName\<close>. The first regular expression,
  \<open>^(img|image|picture|photo)\d*$\<close>, matches one of the four words followed by digits
  only.
\<close>

definition isGenericImageName :: "string \<Rightarrow> bool" where
  "isGenericImageName fileName =
     list_ex (\<lambda>word. prefix word fileName \<and> list_all isDigit (drop (length word) fileName))
       [''img'', ''image'', ''picture'', ''photo'']"

definition isOptimizedFileName :: "string \<Rightarrow> bool" where
  "isOptimizedFileName fileName0 =
     (let fileName = ToLower fileName0;
          dotIndex = LastIndex fileName ''.'';
          fileName = (if dotIndex > 0 then take (nat dotIndex) fileName else fileName)
      in if isGenericImageName fileName then False
         else if Contains fileName ''_'' \<or> Contains fileName '' '' then False
         else if int (length fileName) < 3 \<or> \<not> list_ex isLowerLetter fileName then False
         else True)"

subsection \<open>The eight analyses\<close>

definition analyzeTitleSEO :: "string \<Rightarrow> string \<Rightarrow> TitleAnalysis" where
  "analyzeTitleSEO title primaryKeyword =
     (let len = int (length title);
          (lengthScore, lengthStatus) =
            (if len \<ge> 50 \<and> len \<le> 60 then (100, ''optimal'')
             else if len \<ge> 40 \<and> len < 70 then (80, ''good'')
             else if len < 40 then (60, ''too_short'')
             else (40, ''too_long''));
          titleLower = ToLower title;
          keywordLower = ToLower primaryKeyword;
          (containsPrimaryKeyword, keywordPosition, keywordScore) =
            (if keywordLower \<noteq> ''''
             then (if Contains titleLower keywordLower
                   then (let position = Index titleLower keywordLower
                         in if position = 0 then (True, ''beginning'', 100)
                            else if position \<le> len div 2 then (True, ''middle'', 80)
                            else (True, ''end'', 60))
                   else (False, '''', 20))
             else (False, '''', 50));
          powerWords = filter (Contains titleLower)
            [''ultimate'', ''complete'', ''guide'', ''best'', ''top'', ''how'', ''why'', ''what'',
             ''when'', ''expert'', ''proven'', ''essential'', ''amazing'', ''incredible'',
             ''powerful'']
      in \<lparr> tTitle = title, tLength = len, tLengthScore = lengthScore,
           tLengthStatus = lengthStatus, tContainsPrimaryKeyword = containsPrimaryKeyword,
           KeywordPosition = keywordPosition, tKeywordScore = keywordScore,
           PowerWords = powerWords,
           PowerWordScore = Min64 (real (length powerWords) * 20) 100 \<rparr>)"

definition analyzeMetaDescription :: "string \<Rightarrow> string \<Rightarrow> MetaAnalysis" where
  "analyzeMetaDescription metaDescription primaryKeyword =
     (let len = int (length metaDescription);
          (lengthScore, lengthStatus) =
            (if len \<ge> 150 \<and> len \<le> 160 then (100, ''optimal'')
             else if len \<ge> 120 \<and> len \<le> 170 then (80, ''good'')
             else if len < 120 then (60, ''too_short'')
             else (40, ''too_long''));
          (containsPrimaryKeyword, keywordScore) =
            (if primaryKeyword \<noteq> ''''
             then (let metaLower = ToLower metaDescription;
                       keywordLower = ToLower primaryKeyword
                   in if Contains metaLower keywordLower then (True, 100) else (False, 20))
             else (False, 50));
          metaLower = ToLower metaDescription;
          callToAction = list_ex (Contains metaLower)
            [''learn'', ''discover'', ''find out'', ''get'', ''download'', ''read'', ''explore'',
             ''try'', ''start'', ''join'']
      in \<lparr> mMetaDescription = metaDescription, mLength = len, mLengthScore = lengthScore,
           mLengthStatus = lengthStatus, mContainsPrimaryKeyword = containsPrimaryKeyword,
           mKeywordScore = keywordScore, CallToAction = callToAction,
           CTAScore = (if callToAction then 100 else 30) \<rparr>)"

definition analyzeContentStructure :: "string \<Rightarrow> HeadingData list \<Rightarrow> StructureAnalysis" where
  "analyzeContentStructure content headings =
     (let wordCount = countWords content;
          (wordCountScore, wordCountStatus) =
            (if wordCount \<ge> 1000 \<and> wordCount \<le> 3000 then (100, ''optimal'')
             else if wordCount \<ge> 500 \<and> wordCount < 4000 then (80, ''good'')
             else if wordCount < 500 then (50, ''too_short'')
             else (70, ''very_long''));
          h1Count = int (length (filter (\<lambda>heading. Level heading = 1) headings));
          h2Count = int (length (filter (\<lambda>heading. Level heading = 2) headings));
          h3Count = int (length (filter (\<lambda>heading. Level heading = 3) headings));
          (h1Score, h1Status) =
            (if h1Count = 1 then (100, ''optimal'')
             else if h1Count = 0 then (20, ''missing'')
             else (60, ''multiple''));
          (h2Score, h2Status) =
            (if h2Count \<ge> 2 \<and> h2Count \<le> 8 then (100, ''good'')
             else if h2Count = 1 then (70, ''minimal'')
             else if h2Count = 0 then (40, ''missing'')
             else (80, ''many''));
          paragraphCount = Count content [CHR 0x0A, CHR 0x0A] + 1;
          avgWordsPerParagraph =
            (if wordCount > 0 then real_of_int wordCount / real_of_int paragraphCount else 0);
          paragraphScore =
            (if avgWordsPerParagraph \<ge> 50 \<and> avgWordsPerParagraph \<le> 100 then 100
             else if avgWordsPerParagraph \<ge> 30 \<and> avgWordsPerParagraph \<le> 150 then 80
             else 60)
      in \<lparr> sWordCount = wordCount, WordCountScore = wordCountScore,
           WordCountStatus = wordCountStatus, sHeadings = headings,
           H1Count = h1Count, H1Score = h1Score, H1Status = h1Status,
           H2Count = h2Count, H2Score = h2Score, H2Status = h2Status, H3Count = h3Count,
           AvgWordsPerParagraph = avgWordsPerParagraph, ParagraphScore = paragraphScore \<rparr>)"

definition zeroKeywordAnalysis :: KeywordAnalysis where
  "zeroKeywordAnalysis =
     \<lparr> PrimaryKeyword = '''', PrimaryKeywordCount = 0, PrimaryKeywordDensity = 0,
       PrimaryKeywordScore = 0, PrimaryKeywordStatus = '''', PrimaryKeywordInIntro = False,
       IntroKeywordScore = 0, SecondaryKeywords = [], SecondaryKeywordData = [],
       LSIKeywords = [], LSIScore = 0 \<rparr>"

definition analyzeKeywordOptimization :: "ContentData \<Rightarrow> KeywordAnalysis" where
  "analyzeKeywordOptimization content =
     (let analysis = zeroKeywordAnalysis
            \<lparr> PrimaryKeyword := cPrimaryKeyword content,
              SecondaryKeywords := cSecondaryKeywords content \<rparr>;
          contentText = Content content;
          wordCount = countWords contentText
      in if wordCount = 0 then analysis
         else (let contentLower = ToLower contentText;
                   analysis =
                     (if cPrimaryKeyword content \<noteq> ''''
                      then (let primaryKeywordLower = ToLower (cPrimaryKeyword content);
                                cnt = Count contentLower primaryKeywordLower;
                                density = (real_of_int cnt / real_of_int wordCount) * 100;
                                (score, status) =
                                  (if density \<ge> 1.0 \<and> density \<le> 2.0 then (100, ''optimal'')
                                   else if density \<ge> 0.5 \<and> density < 3.0 then (80, ''good'')
                                   else if density < 0.5 then (50, ''too_low'')
                                   else (30, ''too_high''));
                                firstHundredWords = getFirstNWords contentText 100;
                                inIntro = Contains (ToLower firstHundredWords) primaryKeywordLower
                            in analysis
                                 \<lparr> PrimaryKeywordCount := cnt,
                                   PrimaryKeywordDensity := density,
                                   PrimaryKeywordScore := score,
                                   PrimaryKeywordStatus := status,
                                   PrimaryKeywordInIntro := inIntro,
                                   IntroKeywordScore := (if inIntro then 100 else 40) \<rparr>)
                      else analysis);
                   secondaryKeywordData =
                     map (\<lambda>secondaryKeyword.
                            (let secondaryKeywordLower = ToLower secondaryKeyword;
                                 cnt = Count contentLower secondaryKeywordLower;
                                 density = (real_of_int cnt / real_of_int wordCount) * 100
                             in \<lparr> Keyword = secondaryKeyword, kCount = cnt, Density = density \<rparr>))
                       (filter (\<lambda>secondaryKeyword. secondaryKeyword \<noteq> '''')
                          (cSecondaryKeywords content));
                   lsiKeywords = identifyLSIKeywords contentText (cPrimaryKeyword content)
               in analysis
                    \<lparr> SecondaryKeywordData := secondaryKeywordData,
                      LSIKeywords := lsiKeywords,
                      LSIScore := Min64 (real (length lsiKeywords) * 10) 100 \<rparr>))"

definition zeroReadabilityAnalysis :: ReadabilityAnalysis where
  "zeroReadabilityAnalysis =
     \<lparr> SentenceCount = 0, rWordCount = 0, SyllableCount = 0, AvgWordsPerSentence = 0,
       AvgSyllablesPerWord = 0, FleschScore = 0, FleschKincaidGrade = 0,
       ReadingLevel = '''', ReadabilityScore = 0,
       SentenceLengthAnalysis = zeroSentenceLengthAnalysis,
       TransitionWords = [], TransitionWordScore = 0 \<rparr>"

definition analyzeReadability :: "string \<Rightarrow> ReadabilityAnalysis" where
  "analyzeReadability content =
     (let sentences = countSentences content;
          words = countWords content;
          syllables = countSyllables content
      in if sentences = 0 \<or> words = 0 then zeroReadabilityAnalysis
         else (let avgWordsPerSentence = real_of_int words / real_of_int sentences;
                   avgSyllablesPerWord = real_of_int syllables / real_of_int words;
                   fleschScore0 = 206.835 - (1.015 * avgWordsPerSentence)
                                   - (84.6 * avgSyllablesPerWord);
                   fleschScore = Max64 0 (Min64 100 fleschScore0);
                   (readingLevel, readabilityScore) =
                     (if fleschScore \<ge> 90 then (''very_easy'', 100)
                      else if fleschScore \<ge> 80 then (''easy'', 90)
                      else if fleschScore \<ge> 70 then (''fairly_easy'', 80)
                      else if fleschScore \<ge> 60 then (''standard'', 70)
                      else if fleschScore \<ge> 50 then (''fairly_difficult'', 60)
                      else if fleschScore \<ge> 30 then (''difficult'', 40)
                      else (''very_difficult'', 20));
                   contentLower = ToLower content;
                   transitionWords = filter (Contains contentLower)
                     [''however'', ''therefore'', ''furthermore'', ''moreover'', ''additionally'',
                      ''consequently'', ''meanwhile'', ''nevertheless'', ''similarly'',
                      ''in contrast'', ''on the other hand'', ''in addition'', ''for example'',
                      ''for instance'']
               in \<lparr> SentenceCount = sentences, rWordCount = words, SyllableCount = syllables,
                    AvgWordsPerSentence = avgWordsPerSentence,
                    AvgSyllablesPerWord = avgSyllablesPerWord,
                    FleschScore = fleschScore,
                    FleschKincaidGrade = (0.39 * avgWordsPerSentence)
                                          + (11.8 * avgSyllablesPerWord) - 15.59,
                    ReadingLevel = readingLevel,
                    ReadabilityScore = readabilityScore,
                    SentenceLengthAnalysis = analyzeSentenceLengths content,
                    TransitionWords = transitionWords,
                    TransitionWordScore = Min64 (real (length transitionWords) * 15) 100 \<rparr>))"

definition analyzeTechnicalSEO :: "ContentData \<Rightarrow> TechnicalAnalysis" where
  "analyzeTechnicalSEO content =
     (let hasSchemaMarkup = (SchemaMarkup content \<noteq> '''');
          hasCanonicalURL = (CanonicalURL content \<noteq> '''');
          (loadTimeScore, loadTimeStatus) =
            (if fgt (LoadTime content) 0
             then (if fle (LoadTime content) 2.0 then (100, ''excellent'')
                   else if fle (LoadTime content) 3.0 then (80, ''good'')
                   else if fle (LoadTime content) 5.0 then (60, ''fair'')
                   else (30, ''poor''))
             else (50, ''''))
      in \<lparr> URLAnalysis = analyzeURL (cURL content) (cPrimaryKeyword content),
           HasSchemaMarkup = hasSchemaMarkup,
           SchemaScore = (if hasSchemaMarkup then 100 else 0),
           HasCanonicalURL = hasCanonicalURL,
           CanonicalScore = (if hasCanonicalURL then 100 else 50),
           LoadTimeScore = loadTimeScore,
           LoadTimeStatus = loadTimeStatus,
           IsMobileResponsive = MobileResponsive content,
           MobileScore = (if MobileResponsive content then 100 else 0) \<rparr>)"

definition analyzeLinkStructure :: "LinkData list \<Rightarrow> LinkData list \<Rightarrow> LinkAnalysis" where
  "analyzeLinkStructure internalLinks externalLinks =
     (let internalLinkCount = int (length internalLinks);
          externalLinkCount = int (length externalLinks);
          (internalLinkScore, internalLinkStatus) =
            (if internalLinkCount \<ge> 3 \<and> internalLinkCount \<le> 10 then (100, ''optimal'')
             else if internalLinkCount \<ge> 1 \<and> internalLinkCount \<le> 15 then (80, ''good'')
             else if internalLinkCount = 0 then (20, ''missing'')
             else (60, ''too_many''));
          (externalLinkScore, externalLinkStatus) =
            (if externalLinkCount \<ge> 2 \<and> externalLinkCount \<le> 5 then (100, ''optimal'')
             else if externalLinkCount \<ge> 1 \<and> externalLinkCount \<le> 8 then (80, ''good'')
             else if externalLinkCount = 0 then (40, ''none'')
             else (60, ''too_many''))
      in \<lparr> InternalLinks = internalLinks, ExternalLinks = externalLinks,
           InternalLinkCount = internalLinkCount, ExternalLinkCount = externalLinkCount,
           InternalLinkScore = internalLinkScore, InternalLinkStatus = internalLinkStatus,
           ExternalLinkScore = externalLinkScore, ExternalLinkStatus = externalLinkStatus,
           AnchorTextAnalysis = analyzeAnchorTexts (internalLinks @ externalLinks) \<rparr>)"

definition analyzeImageOptimization :: "ImageData list \<Rightarrow> ImageAnalysis" where
  "analyzeImageOptimization images =
     (if length images = 0
      then \<lparr> Images = images, ImageCount = int (length images), ImagesWithAltText = 0,
             ImagesWithTitle = 0, OptimizedFileNames = 0, AltTextScore = 0, TitleScore = 0,
             FileNameScore = 0, ImageScore = 50 \<rparr>
      else (let altTextCount = int (length (filter (\<lambda>image. AltText image \<noteq> '''') images));
                titleCount = int (length (filter (\<lambda>image. iTitle image \<noteq> '''') images));
                optimizedFileNames =
                  int (length (filter (\<lambda>image. isOptimizedFileName (FileName image)) images));
                altTextPercentage = real_of_int altTextCount / real (length images) * 100;
                titlePercentage = real_of_int titleCount / real (length images) * 100;
                fileNamePercentage = real_of_int optimizedFileNames / real (length images) * 100
            in \<lparr> Images = images, ImageCount = int (length images),
                 ImagesWithAltText = altTextCount, ImagesWithTitle = titleCount,
                 OptimizedFileNames = optimizedFileNames,
                 AltTextScore = altTextPercentage, TitleScore = titlePercentage,
                 FileNameScore = fileNamePercentage,
                 ImageScore = (altTextPercentage * 0.5 + titlePercentage * 0.2
                               + fileNamePercentage * 0.3) \<rparr>))"

subsection \<open>Overall score and entry point\<close>

definition calculateOverallSEOScore :: "SEOAnalysis \<Rightarrow> int" where
  "calculateOverallSEOScore analysis =
     (let totalScore = 0; weights = 0;
          titleScore = (real_of_int (tLengthScore (TitleAnalysis analysis))
                        + real_of_int (tKeywordScore (TitleAnalysis analysis))) / 2;
          totalScore = totalScore + titleScore * 0.15;
          weights = weights + 0.15;
          metaScore = (real_of_int (mLengthScore (MetaAnalysis analysis))
                       + real_of_int (mKeywordScore (MetaAnalysis analysis))) / 2;
          totalScore = totalScore + metaScore * 0.10;
          weights = weights + 0.10;
          structureScore = (real_of_int (WordCountScore (StructureAnalysis analysis))
                            + real_of_int (H1Score (StructureAnalysis analysis))
                            + real_of_int (H2Score (StructureAnalysis analysis))) / 3;
          totalScore = totalScore + structureScore * 0.20;
          weights = weights + 0.20;
          keywordScore = real_of_int (PrimaryKeywordScore (KeywordAnalysis analysis));
          totalScore = totalScore + keywordScore * 0.20;
          weights = weights + 0.20;
          readabilityScore = real_of_int (ReadabilityScore (ReadabilityAnalysis analysis));
          totalScore = totalScore + readabilityScore * 0.15;
          weights = weights + 0.15;
          technicalScore = (real_of_int (SchemaScore (TechnicalAnalysis analysis))
                            + real_of_int (CanonicalScore (TechnicalAnalysis analysis))
                            + real_of_int (LoadTimeScore (TechnicalAnalysis analysis))) / 3;
          totalScore = totalScore + technicalScore * 0.10;
          weights = weights + 0.10;
          linkScore = (real_of_int (InternalLinkScore (LinkAnalysis analysis))
                       + real_of_int (ExternalLinkScore (LinkAnalysis analysis))) / 2;
          totalScore = totalScore + linkScore * 0.05;
          weights = weights + 0.05;
          imageScore = ImageScore (ImageAnalysis analysis);
          totalScore = totalScore + imageScore * 0.05;
          weights = weights + 0.05
      in if weights > 0 then toInt (Min64 (totalScore / weights) 100) else 0)"

subsection \<open>Recommendations and opportunities\<close>

text \<open>
  Both functions append to a list that starts empty, one entry for each test that
  succeeds, in the order of the tests.
\<close>

definition generateRecommendations :: "SEOAnalysis \<Rightarrow> string list" where
  "generateRecommendations analysis =
     (if tLengthStatus (TitleAnalysis analysis) = ''too_short''
      then [''Expand your title to 50-60 characters for optimal search engine display'']
      else if tLengthStatus (TitleAnalysis analysis) = ''too_long''
      then [''Shorten your title to under 60 characters to avoid truncation in search results'']
      else [])
     @ (if \<not> tContainsPrimaryKeyword (TitleAnalysis analysis)
        then [''Include your primary keyword in the title, preferably near the beginning'']
        else [])
     @ (if mLengthStatus (MetaAnalysis analysis) = ''too_short''
        then [''Expand your meta description to 150-160 characters for better search result display'']
        else if mLengthStatus (MetaAnalysis analysis) = ''too_long''
        then [''Shorten your meta description to under 160 characters'']
        else [])
     @ (if \<not> CallToAction (MetaAnalysis analysis)
        then [''Add a compelling call-to-action to your meta description'']
        else [])
     @ (if H1Status (StructureAnalysis analysis) = ''missing''
        then [''Add an H1 heading to your content for better structure'']
        else if H1Status (StructureAnalysis analysis) = ''multiple''
        then [''Use only one H1 heading per page'']
        else [])
     @ (if H2Status (StructureAnalysis analysis) = ''missing''
        then [''Add H2 subheadings to improve content structure and readability'']
        else [])
     @ (if PrimaryKeywordStatus (KeywordAnalysis analysis) = ''too_low''
        then [''Increase primary keyword usage to 1-2% density'']
        else if PrimaryKeywordStatus (KeywordAnalysis analysis) = ''too_high''
        then [''Reduce primary keyword usage to avoid over-optimization (aim for 1-2% density)'']
        else [])
     @ (if FleschScore (ReadabilityAnalysis analysis) < 60
        then [''Improve readability by using shorter sentences and simpler words'']
        else [])
     @ (if \<not> HasSchemaMarkup (TechnicalAnalysis analysis)
        then [''Add schema markup to help search engines understand your content better'']
        else [])
     @ (if InternalLinkStatus (LinkAnalysis analysis) = ''missing''
        then [''Add 3-5 internal links to related content on your website'']
        else [])
     @ (if ExternalLinkStatus (LinkAnalysis analysis) = ''none''
        then [''Include 2-3 links to high-quality external sources for credibility'']
        else [])
     @ (if AltTextScore (ImageAnalysis analysis) < 80
        then [''Add descriptive alt text to all images for better accessibility and SEO'']
        else [])"

definition identifyOpportunities :: "SEOAnalysis \<Rightarrow> Opportunity list" where
  "identifyOpportunities analysis =
     (if \<not> tContainsPrimaryKeyword (TitleAnalysis analysis)
      then [\<lparr> oType = ''title_optimization'', Priority = ''high'', Impact = ''high'',
               Effort = ''low'', oTitle = ''Add primary keyword to title'',
               Description = ''Including your primary keyword in the title can significantly improve rankings'',
               Action = ''Edit the title to include your primary keyword, preferably at the beginning'' \<rparr>]
      else [])
     @ (if PrimaryKeywordDensity (KeywordAnalysis analysis) < 0.5
        then [\<lparr> oType = ''keyword_optimization'', Priority = ''high'', Impact = ''medium'',
                 Effort = ''medium'', oTitle = ''Increase keyword density'',
                 Description = ''Your primary keyword density is too low, which may affect rankings'',
                 Action = ''Naturally incorporate your primary keyword 2-3 more times in the content'' \<rparr>]
        else [])
     @ (if H2Count (StructureAnalysis analysis) < 2
        then [\<lparr> oType = ''content_structure'', Priority = ''medium'', Impact = ''medium'',
                 Effort = ''low'', oTitle = ''Add more H2 subheadings'',
                 Description = ''Proper heading structure improves both SEO and user experience'',
                 Action = ''Break your content into logical sections with descriptive H2 headings'' \<rparr>]
        else [])
     @ (if int (length (InternalLinks (LinkAnalysis analysis))) < 3
        then [\<lparr> oType = ''internal_linking'', Priority = ''medium'', Impact = ''medium'',
                 Effort = ''low'', oTitle = ''Add internal links'',
                 Description = ''Internal links help search engines understand your site structure and keep users engaged'',
                 Action = ''Link to 3-5 related articles or pages on your website'' \<rparr>]
        else [])
     @ (if AltTextScore (ImageAnalysis analysis) < 100
        then [\<lparr> oType = ''image_optimization'', Priority = ''low'', Impact = ''low'',
                 Effort = ''low'', oTitle = ''Optimize image alt text'',
                 Description = ''Alt text helps search engines understand your images and improves accessibility'',
                 Action = ''Add descriptive alt text to all images, including relevant keywords where appropriate'' \<rparr>]
        else [])
     @ (if \<not> HasSchemaMarkup (TechnicalAnalysis analysis)
        then [\<lparr> oType = ''schema_markup'', Priority = ''low'', Impact = ''medium'',
                 Effort = ''high'', oTitle = ''Add schema markup'',
                 Description = ''Schema markup helps search engines better understand and display your content'',
                 Action = ''Implement appropriate schema markup (Article, BlogPosting, etc.) for your content type'' \<rparr>]
        else [])"

text \<open>
  \<open>AnalyzeContent\<close> stamps the result with \<open>time.Now()\<close>; the clock reading is the first
  argument.
\<close>

definition AnalyzeContent :: "Time \<Rightarrow> ContentData \<Rightarrow> SEOAnalysis" where
  "AnalyzeContent now content =
     (let analysis =
            \<lparr> ContentID = cID content, aTitle = cTitle content, aURL = cURL content,
              AnalyzedAt = now, OverallScore = 0,
              TitleAnalysis = analyzeTitleSEO (cTitle content) (cPrimaryKeyword content),
              MetaAnalysis =
                analyzeMetaDescription (cMetaDescription content) (cPrimaryKeyword content),
              StructureAnalysis = analyzeContentStructure (Content content) (cHeadings content),
              KeywordAnalysis = analyzeKeywordOptimization content,
              ReadabilityAnalysis = analyzeReadability (Content content),
              TechnicalAnalysis = analyzeTechnicalSEO content,
              LinkAnalysis =
                analyzeLinkStructure (cInternalLinks content) (cExternalLinks content),
              ImageAnalysis = analyzeImageOptimization (cImages content),
              Recommendations = [], Opportunities = [] \<rparr>;
          analysis = analysis \<lparr> OverallScore := calculateOverallSEOScore analysis \<rparr>;
          analysis = analysis \<lparr> Recommendations := generateRecommendations analysis \<rparr>;
          analysis = analysis \<lparr> Opportunities := identifyOpportunities analysis \<rparr>
      in analysis)"

section \<open>Trend analyzer (pkg/analytics/trend\_analyzer.go)\<close>

record TrendDataPoint =
  Date :: Time
  Value :: real

record LinearRegression =
  Slope :: float64
  Intercept :: float64
  RSquared :: float64

record Anomaly =
  aDate :: Time
  aValue :: real
  Expected :: real
  Deviation :: real
  ZScore :: real
  Type :: string

text \<open>
  The result keeps the fields of the Go struct except \<open>SeasonalityAnalysis\<close>, \<open>Forecast\<close>
  and \<open>Insights\<close>: these need the civil calendar (weekday, month, \<open>AddDate\<close>) and the
  iteration over Go maps, and no property stated below speaks about them.
\<close>

record TrendAnalysis =
  Points :: int
  Status :: string
  StartDate :: Time
  EndDate :: Time
  StartValue :: real
  EndValue :: real
  MinValue :: real
  MaxValue :: real
  AverageValue :: real
  LinearRegression :: LinearRegression
  TrendDirection :: string
  TrendStrength :: string
  TotalGrowth :: real
  AverageGrowthRate :: real
  Anomalies :: "Anomaly list"
  Volatility :: real
  DataPoints :: "TrendDataPoint list"

text \<open>The zero values of the structs, as Go initialises them.\<close>

definition zeroLinearRegression :: LinearRegression where
  "zeroLinearRegression = \<lparr> Slope = Finite 0, Intercept = Finite 0, RSquared = Finite 0 \<rparr>"

definition zeroTrendAnalysis :: TrendAnalysis where
  "zeroTrendAnalysis =
     \<lparr> Points = 0, Status = '''', StartDate = 0, EndDate = 0, StartValue = 0, EndValue = 0,
       MinValue = 0, MaxValue = 0, AverageValue = 0,
       LinearRegression = zeroLinearRegression,
       TrendDirection = '''', TrendStrength = '''', TotalGrowth = 0, AverageGrowthRate = 0,
       Anomalies = [], Volatility = 0, DataPoints = [] \<rparr>"

definition Before :: "Time \<Rightarrow> Time \<Rightarrow> bool" where
  "Before t u = (t < u)"

text \<open>
  \<open>sort.Slice(data, less)\<close> with \<open>less(i, j) = data[i].Date.Before(data[j].Date)\<close> sorts
  the slice in place. For up to 12 elements Go runs the insertion sort below: element
  \<open>i\<close> is swapped with its left neighbour as long as it is earlier than that neighbour.
  \<open>insertBack x placed\<close> is this inner loop; \<open>placed\<close> holds the elements already placed,
  the nearest neighbour first. For longer slices Go runs a pattern-defeating quicksort;
  it returns the same slice when no two points carry the same date, which is the case
  for every series of more than 12 points that the theorems below speak about. Points
  with equal dates may then come out in another order than here.
\<close>

fun insertBack :: "TrendDataPoint \<Rightarrow> TrendDataPoint list \<Rightarrow> TrendDataPoint list" where
  "insertBack x [] = [x]"
| "insertBack x (y # placed) =
     (if Before (Date x) (Date y) then y # insertBack x placed else x # y # placed)"

definition sortSlice :: "TrendDataPoint list \<Rightarrow> TrendDataPoint list" where
  "sortSlice data = rev (foldl (\<lambda>placed x. insertBack x placed) [] data)"

definition calculateBasicStats :: "TrendDataPoint list \<Rightarrow> real \<times> real \<times> real" where
  "calculateBasicStats data =
     (if length data = 0 then (0, 0, 0)
      else (let step = (\<lambda>(mn, mx, sm) point.
                          (if Value point < mn then Value point else mn,
                           if Value point > mx then Value point else mx,
                           sm + Value point));
                (mn, mx, sm) = foldl step (Value (data ! 0), Value (data ! 0), 0) data
            in (mn, mx, sm / real (length data))))"

text \<open>The abscissa of a point: days since the first point of the series.\<close>

definition daysSince :: "Time \<Rightarrow> TrendDataPoint \<Rightarrow> real" where
  "daysSince baseTime point = Hours (Sub (Date point) baseTime) / 24"

text \<open>
  The two loops of \<open>calculateLinearRegression\<close>. The first accumulates the five sums;
  the second accumulates the residual sum of squares, which is NaN as soon as the slope
  is, and the total sum of squares.
\<close>

definition regressionSums :: "Time \<Rightarrow> TrendDataPoint list \<Rightarrow> real \<times> real \<times> real \<times> real \<times> real" where
  "regressionSums baseTime data =
     foldl (\<lambda>(sumX, sumY, sumXY, sumX2, sumY2) point.
              (let x = daysSince baseTime point; y = Value point
               in (sumX + x, sumY + y, sumXY + x * y, sumX2 + x * x, sumY2 + y * y)))
       (0, 0, 0, 0, 0) data"

definition regressionSquares ::
    "Time \<Rightarrow> float64 \<Rightarrow> float64 \<Rightarrow> real \<Rightarrow> TrendDataPoint list \<Rightarrow> float64 \<times> real" where
  "regressionSquares baseTime slope intercept meanY data =
     foldl (\<lambda>(ssRes, ssTot) point.
              (let x = daysSince baseTime point;
                   predicted = fadd (fmul slope (Finite x)) intercept;
                   residual = fsub (Finite (Value point)) predicted
               in (fadd ssRes (fmul residual residual),
                   ssTot + (Value point - meanY) * (Value point - meanY))))
       (Finite 0, 0) data"

definition calculateLinearRegression :: "TrendDataPoint list \<Rightarrow> LinearRegression" where
  "calculateLinearRegression data =
     (let n = real (length data)
      in if n < 2 then zeroLinearRegression
         else (let baseTime = Date (data ! 0);
                   (sumX, sumY, sumXY, sumX2, sumY2) = regressionSums baseTime data;
                   slope = fdiv (n * sumXY - sumX * sumY) (n * sumX2 - sumX * sumX);
                   intercept = fquot (fsub (Finite sumY) (fmul slope (Finite sumX))) (Finite n);
                   meanY = sumY / n;
                   (ssRes, ssTot) = regressionSquares baseTime slope intercept meanY data;
                   rSquared = (if ssTot = 0 then Finite 0
                               else fsub (Finite 1.0) (fquot ssRes (Finite ssTot)))
               in \<lparr> Slope = slope, Intercept = intercept, RSquared = rSquared \<rparr>))"

definition determineTrendDirection :: "float64 \<Rightarrow> string" where
  "determineTrendDirection slope =
     (if fgt slope 0.1 then ''strongly_increasing''
      else if fgt slope 0.01 then ''increasing''
      else if flt slope (- 0.1) then ''strongly_decreasing''
      else if flt slope (- 0.01) then ''decreasing''
      else ''stable'')"

definition calculateTrendStrength :: "float64 \<Rightarrow> string" where
  "calculateTrendStrength rSquared =
     (if fge rSquared 0.9 then ''very_strong''
      else if fge rSquared 0.7 then ''strong''
      else if fge rSquared 0.5 then ''moderate''
      else if fge rSquared 0.3 then ''weak''
      else ''very_weak'')"

definition calculateTotalGrowth :: "real \<Rightarrow> real \<Rightarrow> real" where
  "calculateTotalGrowth startValue endValue =
     (if startValue = 0 then 0 else ((endValue - startValue) / startValue) * 100)"

text \<open>
  The period-over-period percentage changes of a series, for the periods whose previous
  value is not zero: the values that the loops of \<open>calculateAverageGrowthRate\<close> and
  \<open>calculateVolatility\<close> compute for \<open>i = 1, ..., len(data) - 1\<close>.
\<close>

definition periodChanges :: "TrendDataPoint list \<Rightarrow> real list" where
  "periodChanges data =
     map (\<lambda>i. ((Value (data ! i) - Value (data ! (i - 1))) / Value (data ! (i - 1))) * 100)
       (filter (\<lambda>i. Value (data ! (i - 1)) \<noteq> 0) [1..<length data])"

definition calculateAverageGrowthRate :: "TrendDataPoint list \<Rightarrow> real" where
  "calculateAverageGrowthRate data =
     (if length data < 2 then 0
      else (let totalGrowthRate = foldl (\<lambda>t growthRate. t + growthRate) 0 (periodChanges data);
                validPeriods = length (periodChanges data)
            in if validPeriods = 0 then 0 else totalGrowthRate / real validPeriods))"

definition classifyAnomalyType :: "real \<Rightarrow> real \<Rightarrow> string" where
  "classifyAnomalyType actual expected =
     (if actual > expected * 1.5 then ''spike''
      else if actual < expected * 0.5 then ''dip''
      else if actual > expected then ''positive_outlier''
      else ''negative_outlier'')"

text \<open>
  One iteration of the outer loop of \<open>detectAnomalies\<close>, for the index \<open>i\<close>: the anomaly
  appended in this iteration, if any. The window holds the indices \<open>j \<noteq> i\<close> from
  \<open>i - windowSize/2\<close> to \<open>i + windowSize/2\<close>; \<open>count\<close> is twice \<open>windowSize/2\<close>, so
  \<open>count - 1\<close> is positive whenever \<open>count\<close> is not 0.
\<close>

definition anomalyAt :: "TrendDataPoint list \<Rightarrow> nat \<Rightarrow> nat \<Rightarrow> Anomaly list" where
  "anomalyAt data windowSize i =
     (let window = filter (\<lambda>j. j \<noteq> i) [i - windowSize div 2 ..< i + windowSize div 2 + 1];
          sum = foldl (\<lambda>s j. s + Value (data ! j)) 0 window;
          count = length window
      in if count = 0 then []
         else (let mean = sum / real count;
                   sumSquaredDiff = foldl (\<lambda>s j. (let diff = Value (data ! j) - mean
                                                    in s + diff * diff)) 0 window;
                   stdDev = sqrt (sumSquaredDiff / real (count - 1));
                   currentValue = Value (data ! i);
                   zScore = \<bar>currentValue - mean\<bar>;
                   zScore = (if stdDev > 0 then zScore / stdDev else zScore)
               in if zScore > 2.0
                  then [\<lparr> aDate = Date (data ! i), aValue = currentValue, Expected = mean,
                          Deviation = currentValue - mean, ZScore = zScore,
                          Type = classifyAnomalyType currentValue mean \<rparr>]
                  else []))"

definition detectAnomalies :: "TrendDataPoint list \<Rightarrow> Anomaly list" where
  "detectAnomalies data =
     (if length data < 3 then []
      else (let windowSize = (if length data < 7 then length data div 2 else 7)
            in concat (map (anomalyAt data windowSize)
                         [windowSize ..< length data - windowSize])))"

definition calculateVolatility :: "TrendDataPoint list \<Rightarrow> real" where
  "calculateVolatility data =
     (if length data < 2 then 0
      else (let changes = periodChanges data
            in if length changes = 0 then 0
               else (let mean = foldl (\<lambda>m change. m + change) 0 changes;
                         mean = mean / real (length changes);
                         variance = foldl (\<lambda>v change. (let diff = change - mean
                                                         in v + diff * diff)) 0 changes;
                         variance = variance / real (length changes)
                     in sqrt variance)))"

text \<open>
  \<open>AnalyzeTrends\<close> sorts the slice it is given in place, so the caller's slice is part of
  the state: the function returns the analysis together with the contents of the caller's
  slice after the call.
\<close>

definition AnalyzeTrends :: "TrendDataPoint list \<Rightarrow> TrendAnalysis \<times> TrendDataPoint list" where
  "AnalyzeTrends data0 =
     (if length data0 < 2
      then (zeroTrendAnalysis \<lparr> Status := ''insufficient_data'', Points := int (length data0) \<rparr>,
            data0)
      else (let data = sortSlice data0;
                (minValue, maxValue, averageValue) = calculateBasicStats data;
                regression = calculateLinearRegression data;
                startValue = Value (data ! 0);
                endValue = Value (data ! (length data - 1))
            in (\<lparr> Points = int (length data),
                  Status = '''',
                  StartDate = Date (data ! 0),
                  EndDate = Date (data ! (length data - 1)),
                  StartValue = startValue,
                  EndValue = endValue,
                  MinValue = minValue,
                  MaxValue = maxValue,
                  AverageValue = averageValue,
                  LinearRegression = regression,
                  TrendDirection = determineTrendDirection (Slope regression),
                  TrendStrength = calculateTrendStrength (RSquared regression),
                  TotalGrowth = calculateTotalGrowth startValue endValue,
                  AverageGrowthRate = calculateAverageGrowthRate data,
                  Anomalies = detectAnomalies data,
                  Volatility = calculateVolatility data,
                  DataPoints = data \<rparr>,
                data)))"

section \<open>ROI calculator (pkg/analytics/roi\_calculator.go)\<close>

record ContentInvestment =
  CreationCost :: real
  PromotionCost :: real
  ToolsCost :: real
  TimeInvested :: real
  HourlyRate :: real
  OpportunityCost :: real

record DirectConversion =
  dcCustomerID :: nat
  dcRevenue :: real
  dcConvertedAt :: Time
  dcProductType :: string

record AttributedConversion =
  acCustomerID :: nat
  acRevenue :: real
  AttributionWeight :: real
  IsFirstTouch :: bool
  IsLastTouch :: bool
  TouchPosition :: int
  TotalTouches :: int
  DaysFromTouch :: int
  acConvertedAt :: Time

text \<open>
  \<open>calculateEngagementValue\<close> reads the fields \<open>PageViews\<close>, \<open>SocialShares\<close>, \<open>Comments\<close>,
  \<open>Downloads\<close> and \<open>NewsletterSignups\<close> of its first argument; the record holds these.
  (The struct \<open>EngagementMetrics\<close> declared further down in the source file has the first
  three of them and three fields that the ROI calculator does not read.)
\<close>

record EngagementMetrics =
  emPageViews :: int
  emSocialShares :: int
  emComments :: int
  emDownloads :: int
  emNewsletterSignups :: int

record EngagementValueMetrics =
  PageViewValue :: real
  ShareValue :: real
  CommentValue :: real
  DownloadValue :: real
  SignupValue :: real

record BrandMetrics =
  BrandMentions :: real
  MentionValue :: real
  BacklinkValue :: real
  SearchVisibilityValue :: real
  ThoughtLeadershipValue :: real

record ContentROIMetrics =
  mContentID :: nat
  mTitle :: string
  mPublishedAt :: Time
  mPeriod :: int
  Investment :: ContentInvestment
  DirectConversions :: "DirectConversion list"
  AttributedConversions :: "AttributedConversion list"
  AttributionModel :: string
  Leads :: int
  NewCustomers :: int
  AverageCLV :: real
  Engagement :: EngagementMetrics
  EngagementValue :: EngagementValueMetrics
  mBrandMetrics :: BrandMetrics

record ContentROIResult =
  rContentID :: nat
  rTitle :: string
  rPublishedAt :: Time
  rPeriod :: int
  TotalInvestment :: real
  DirectRevenue :: real
  IndirectRevenue :: real
  TotalRevenue :: real
  ROIPercentage :: real
  PaybackPeriod :: float64
  CLVImpact :: real
  LeadValue :: real
  CostPerLead :: real
  CostPerAcquisition :: real
  rEngagementValue :: real
  BrandValue :: real

definition calculateTotalInvestment :: "ContentInvestment \<Rightarrow> real" where
  "calculateTotalInvestment investment =
     (let total = CreationCost investment + PromotionCost investment + ToolsCost investment;
          total = total + TimeInvested investment * HourlyRate investment;
          total = total + OpportunityCost investment
      in total)"

definition calculateDirectRevenue :: "DirectConversion list \<Rightarrow> real" where
  "calculateDirectRevenue conversions =
     foldl (\<lambda>total conversion. total + dcRevenue conversion) 0 conversions"

definition calculateTimeDecayWeight :: "int \<Rightarrow> real" where
  "calculateTimeDecayWeight daysFromTouch =
     (let decayRate = 0.1 in exp (- decayRate * real_of_int daysFromTouch))"

definition calculatePositionBasedWeight :: "int \<Rightarrow> int \<Rightarrow> real" where
  "calculatePositionBasedWeight position tot =
     (if tot = 1 then 1.0
      else if position = 1 then 0.4
      else if position = tot then 0.2
      else (let middleTouches = tot - 2
            in if middleTouches > 0 then 0.4 / real_of_int middleTouches else 0.0))"

text \<open>One iteration of the loop of \<open>calculateIndirectRevenue\<close>: the \<open>switch\<close> on the model.\<close>

definition attributeConversion :: "string \<Rightarrow> real \<Rightarrow> AttributedConversion \<Rightarrow> real" where
  "attributeConversion model tot conversion =
     (if model = ''first_touch'' then
        (if IsFirstTouch conversion then tot + acRevenue conversion else tot)
      else if model = ''last_touch'' then
        (if IsLastTouch conversion then tot + acRevenue conversion else tot)
      else if model = ''linear'' then
        tot + acRevenue conversion * AttributionWeight conversion
      else if model = ''time_decay'' then
        tot + acRevenue conversion * calculateTimeDecayWeight (DaysFromTouch conversion)
      else if model = ''position_based'' then
        tot + acRevenue conversion *
          calculatePositionBasedWeight (TouchPosition conversion) (TotalTouches conversion)
      else tot + acRevenue conversion * AttributionWeight conversion)"

definition calculateIndirectRevenue :: "AttributedConversion list \<Rightarrow> string \<Rightarrow> real" where
  "calculateIndirectRevenue conversions model =
     foldl (attributeConversion model) 0 conversions"

text \<open>
  \<open>revenue / float64(periodDays)\<close> is an unguarded division: for \<open>periodDays = 0\<close> and a
  positive revenue it is \<open>+Inf\<close>, which is not \<open>\<le> 0\<close>, and \<open>investment / +Inf\<close> is zero.
  The result is therefore a \<open>float64\<close> in the sense of the conventions.
\<close>

definition calculatePaybackPeriod :: "real \<Rightarrow> real \<Rightarrow> int \<Rightarrow> float64" where
  "calculatePaybackPeriod investment revenue periodDays =
     (if revenue \<le> 0 then Finite (- 1)
      else (let dailyRevenue = fdiv revenue (real_of_int periodDays)
            in if fle dailyRevenue 0 then Finite (- 1)
               else fquot (Finite investment) dailyRevenue))"

definition calculateCLVImpact :: "int \<Rightarrow> real \<Rightarrow> real" where
  "calculateCLVImpact newCustomers averageCLV = real_of_int newCustomers * averageCLV"

definition calculateLeadValue :: "int \<Rightarrow> real \<Rightarrow> real" where
  "calculateLeadValue leads totalRevenue =
     (if leads = 0 then 0 else totalRevenue / real_of_int leads)"

definition calculateCostPerLead :: "real \<Rightarrow> int \<Rightarrow> real" where
  "calculateCostPerLead investment leads =
     (if leads = 0 then 0 else investment / real_of_int leads)"

definition calculateCostPerAcquisition :: "real \<Rightarrow> DirectConversion list \<Rightarrow> real" where
  "calculateCostPerAcquisition investment conversions =
     (if length conversions = 0 then 0 else investment / real (length conversions))"

definition calculateEngagementValue :: "EngagementMetrics \<Rightarrow> EngagementValueMetrics \<Rightarrow> real" where
  "calculateEngagementValue engagement valueMetrics =
     (let v = 0;
          v = v + real_of_int (emPageViews engagement) * PageViewValue valueMetrics;
          v = v + real_of_int (emSocialShares engagement) * ShareValue valueMetrics;
          v = v + real_of_int (emComments engagement) * CommentValue valueMetrics;
          v = v + real_of_int (emDownloads engagement) * DownloadValue valueMetrics;
          v = v + real_of_int (emNewsletterSignups engagement) * SignupValue valueMetrics
      in v)"

definition calculateBrandValue :: "BrandMetrics \<Rightarrow> real" where
  "calculateBrandValue metrics =
     (let v = 0;
          v = v + BrandMentions metrics * MentionValue metrics;
          v = v + BacklinkValue metrics;
          v = v + SearchVisibilityValue metrics;
          v = v + ThoughtLeadershipValue metrics
      in v)"

definition CalculateContentROI :: "ContentROIMetrics \<Rightarrow> ContentROIResult" where
  "CalculateContentROI metrics =
     (let totalInvestment = calculateTotalInvestment (Investment metrics);
          directRevenue = calculateDirectRevenue (DirectConversions metrics);
          indirectRevenue =
            calculateIndirectRevenue (AttributedConversions metrics) (AttributionModel metrics);
          totalRevenue = directRevenue + indirectRevenue
      in \<lparr> rContentID = mContentID metrics,
           rTitle = mTitle metrics,
           rPublishedAt = mPublishedAt metrics,
           rPeriod = mPeriod metrics,
           TotalInvestment = totalInvestment,
           DirectRevenue = directRevenue,
           IndirectRevenue = indirectRevenue,
           TotalRevenue = totalRevenue,
           ROIPercentage =
             (if totalInvestment > 0
              then ((totalRevenue - totalInvestment) / totalInvestment) * 100
              else 0),
           PaybackPeriod = calculatePaybackPeriod totalInvestment totalRevenue (mPeriod metrics),
           CLVImpact = calculateCLVImpact (NewCustomers metrics) (AverageCLV metrics),
           LeadValue = calculateLeadValue (Leads metrics) totalRevenue,
           CostPerLead = calculateCostPerLead totalInvestment (Leads metrics),
           CostPerAcquisition =
             calculateCostPerAcquisition totalInvestment (DirectConversions metrics),
           rEngagementValue =
             calculateEngagementValue (Engagement metrics) (EngagementValue metrics),
           BrandValue = calculateBrandValue (mBrandMetrics metrics) \<rparr>)"

section \<open>Sample inputs\<close>

text \<open>
  A sample input: one content item with the given creation cost and, when the revenue is
  not zero, one direct conversion of that revenue; no attributed conversions.
\<close>

definition roiInput :: "real \<Rightarrow> real \<Rightarrow> ContentROIMetrics" where
  "roiInput cost revenue =
     \<lparr> mContentID = 1, mTitle = ''post'', mPublishedAt = 0, mPeriod = 30,
       Investment = \<lparr> CreationCost = cost, PromotionCost = 0, ToolsCost = 0,
                      TimeInvested = 0, HourlyRate = 0, OpportunityCost = 0 \<rparr>,
       DirectConversions =
         (if revenue = 0 then []
          else [\<lparr> dcCustomerID = 1, dcRevenue = revenue, dcConvertedAt = 0,
                   dcProductType = ''service'' \<rparr>]),
       AttributedConversions = [],
       AttributionModel = ''position_based'',
       Leads = 0, NewCustomers = 0, AverageCLV = 0,
       Engagement = \<lparr> emPageViews = 0, emSocialShares = 0, emComments = 0,
                      emDownloads = 0, emNewsletterSignups = 0 \<rparr>,
       EngagementValue = \<lparr> PageViewValue = 0, ShareValue = 0, CommentValue = 0,
                           DownloadValue = 0, SignupValue = 0 \<rparr>,
       mBrandMetrics = \<lparr> BrandMentions = 0, MentionValue = 0, BacklinkValue = 0,
                         SearchVisibilityValue = 0, ThoughtLeadershipValue = 0 \<rparr> \<rparr>"

text \<open>
  A behaviour record with the given page views, visit count, downloads and last activity
  and no other activity, and a lead profile around a behaviour record.
\<close>

definition behaviorOf :: "int \<Rightarrow> int \<Rightarrow> int \<Rightarrow> Time \<Rightarrow> Behavior" where
  "behaviorOf pageViews visitCount downloads lastActivity =
     \<lparr> PageViews = pageViews, TotalTimeOnSite = 0, VisitCount = visitCount,
       BlogPostsRead = 0, Downloads = downloads, VideoWatchTime = 0,
       SocialEngagements = 0, ServicePagesVisited = False, PricingPagesVisited = False,
       ContactPagesVisited = False, SearchQueries = 0, LastActivity = lastActivity \<rparr>"


text \<open>
  A daily series: the given values on consecutive days, the first one at the instant
  \<open>start\<close>.
\<close>

definition Day :: Duration where "Day = 24 * Hour"

definition dailySeries :: "Time \<Rightarrow> real list \<Rightarrow> TrendDataPoint list" where
  "dailySeries start values =
     map (\<lambda>k. \<lparr> Date = start + int k * Day, Value = values ! k \<rparr>) [0..<length values]"




section \<open>Verified properties\<close>

subsection \<open>Auxiliary facts\<close>

lemma foldl_add_sum_list:
  "foldl (\<lambda>t c. t + f c) (a::real) xs = a + sum_list (map f xs)"
  by (induction xs arbitrary: a) simp_all

lemma Min64_le: "Min64 x y \<le> y"
  by (simp add: Min64_def)

lemma Min64_nonneg: "0 \<le> x \<Longrightarrow> 0 \<le> y \<Longrightarrow> 0 \<le> Min64 x y"
  by (simp add: Min64_def)

lemma toInt_nonneg: "0 \<le> x \<Longrightarrow> 0 \<le> toInt x"
  by (simp add: toInt_def)

lemma toInt_le: "x \<le> real_of_int k \<Longrightarrow> toInt x \<le> k"
  by (simp add: toInt_def floor_le_iff ceiling_le_iff)

subsection \<open>ROI calculator\<close>

lemma share_even: "r \<noteq> 0 \<Longrightarrow> r * (0.4 / r) = (0.4::real)"
  by simp

lemma w_mid: "1 < position \<Longrightarrow> position < tot \<Longrightarrow>
   calculatePositionBasedWeight position tot = 0.4 / real_of_int (tot - 2)"
  by (simp add: calculatePositionBasedWeight_def)

lemma w_mid_sum: assumes "3 \<le> tot"
  shows "(\<Sum>p\<leftarrow>[2..tot - 1]. calculatePositionBasedWeight p tot) = 0.4"
proof -
  have "map (\<lambda>p. calculatePositionBasedWeight p tot) [2..tot - 1]
      = map (\<lambda>p. 0.4 / real_of_int (tot - 2)) [2..tot - 1]"
    by (rule map_cong) (auto simp: w_mid)
  then have "(\<Sum>p\<leftarrow>[2..tot - 1]. calculatePositionBasedWeight p tot)
      = (\<Sum>p\<leftarrow>[2..tot - 1]. 0.4 / real_of_int (tot - 2))"
    by (rule arg_cong)
  also have "\<dots> = real (length [2..tot - 1]) * (0.4 / real_of_int (tot - 2))"
    by (rule sum_list_triv)
  also have "\<dots> = real (nat (tot - 2)) * (0.4 / real_of_int (tot - 2))"
    by simp
  also have "\<dots> = 0.4"
  proof -
    have n: "real (nat (tot - 2)) = real_of_int (tot - 2)" using assms by simp
    have "real_of_int (tot - 2) \<noteq> 0" using assms by simp
    then have "real_of_int (tot - 2) * (0.4 / real_of_int (tot - 2)) = 0.4"
      by (rule share_even)
    with n show ?thesis by (simp only:)
  qed
  finally show ?thesis .
qed

text \<open>
  Claim C7. Under the attribution model \<open>position_based\<close> a conversion with exactly one
  touch has weight 1.0; with several touches the first has weight 0.4 and the last 0.2,
  and every middle touch has weight 0.4 divided by the number of middle touches, so that
  the middle touches together carry 0.4 (with three touches: 0.4, 0.4, 0.2). The indirect
  revenue is the sum of revenue times weight over the attributed conversions.
\<close>

theorem position_based_weights:
  "(tot = 1 \<longrightarrow> calculatePositionBasedWeight position tot = 1)
   \<and> (1 < tot \<longrightarrow> calculatePositionBasedWeight 1 tot = 0.4)
   \<and> (1 < tot \<longrightarrow> calculatePositionBasedWeight tot tot = 0.2)
   \<and> (1 < position \<and> position < tot \<longrightarrow>
        calculatePositionBasedWeight position tot = 0.4 / real_of_int (tot - 2))
   \<and> (3 \<le> tot \<longrightarrow> (\<Sum>p\<leftarrow>[2..tot - 1]. calculatePositionBasedWeight p tot) = 0.4)
   \<and> [calculatePositionBasedWeight 1 3, calculatePositionBasedWeight 2 3,
        calculatePositionBasedWeight 3 3] = [0.4, 0.4, 0.2]
   \<and> calculateIndirectRevenue conversions ''position_based''
       = (\<Sum>c\<leftarrow>conversions. acRevenue c *
            calculatePositionBasedWeight (TouchPosition c) (TotalTouches c))"
proof -
  have a: "tot = 1 \<longrightarrow> calculatePositionBasedWeight position tot = 1"
    by (simp add: calculatePositionBasedWeight_def)
  have b: "1 < tot \<longrightarrow> calculatePositionBasedWeight 1 tot = 0.4"
    by (simp add: calculatePositionBasedWeight_def)
  have c: "1 < tot \<longrightarrow> calculatePositionBasedWeight tot tot = 0.2"
    by (simp add: calculatePositionBasedWeight_def)
  have d: "1 < position \<and> position < tot \<longrightarrow>
        calculatePositionBasedWeight position tot = 0.4 / real_of_int (tot - 2)"
    by (simp add: w_mid)
  have e: "3 \<le> tot \<longrightarrow> (\<Sum>p\<leftarrow>[2..tot - 1]. calculatePositionBasedWeight p tot) = 0.4"
    by (simp add: w_mid_sum)
  have f: "[calculatePositionBasedWeight 1 3, calculatePositionBasedWeight 2 3,
        calculatePositionBasedWeight 3 3] = [0.4, 0.4, 0.2]"
    by (simp add: calculatePositionBasedWeight_def)
  have "attributeConversion ''position_based'' = (\<lambda>t c. t + acRevenue c *
            calculatePositionBasedWeight (TouchPosition c) (TotalTouches c))"
    by (intro ext) (simp add: attributeConversion_def)
  then have g: "calculateIndirectRevenue conversions ''position_based''
       = (\<Sum>c\<leftarrow>conversions. acRevenue c *
            calculatePositionBasedWeight (TouchPosition c) (TotalTouches c))"
    by (simp add: calculateIndirectRevenue_def foldl_add_sum_list)
  from a b c d e f g show ?thesis by blast
qed

theorem position_based_weights_witness:
  "calculatePositionBasedWeight 1 1 = 1
   \<and> calculatePositionBasedWeight 1 4 = 0.4
   \<and> calculatePositionBasedWeight 4 4 = 0.2
   \<and> calculatePositionBasedWeight 2 4 = 0.2
   \<and> calculatePositionBasedWeight 3 4 = 0.2
   \<and> (\<Sum>p\<leftarrow>[2..4 - 1]. calculatePositionBasedWeight p 4) = 0.4"
  using position_based_weights [of 1 1 "[]"] position_based_weights [of 4 2 "[]"]
    position_based_weights [of 4 3 "[]"]
  by simp

text \<open>
  Claim C3. \<open>CalculateContentROI\<close> returns \<open>ROIPercentage = 0\<close> when the total investment
  is 0 and \<open>PaybackPeriod = -1\<close> when the total revenue is not positive; for a positive
  investment \<open>ROIPercentage\<close> is (total revenue - total investment) / total investment
  * 100. Total investment and total revenue are the sums the calculator computes.
\<close>

theorem roi_percentage_and_payback:
  "TotalInvestment (CalculateContentROI m) = calculateTotalInvestment (Investment m)
   \<and> TotalRevenue (CalculateContentROI m)
       = calculateDirectRevenue (DirectConversions m)
         + calculateIndirectRevenue (AttributedConversions m) (AttributionModel m)
   \<and> (TotalInvestment (CalculateContentROI m) = 0 \<longrightarrow> ROIPercentage (CalculateContentROI m) = 0)
   \<and> (TotalRevenue (CalculateContentROI m) \<le> 0 \<longrightarrow> PaybackPeriod (CalculateContentROI m) = Finite (- 1))
   \<and> (TotalInvestment (CalculateContentROI m) > 0 \<longrightarrow>
        ROIPercentage (CalculateContentROI m)
        = (TotalRevenue (CalculateContentROI m) - TotalInvestment (CalculateContentROI m))
           / TotalInvestment (CalculateContentROI m) * 100)"
  by (simp add: CalculateContentROI_def Let_def calculatePaybackPeriod_def)


theorem roi_percentage_and_payback_witness:
  "TotalInvestment (CalculateContentROI (roiInput 0 0)) = 0
   \<and> ROIPercentage (CalculateContentROI (roiInput 0 0)) = 0
   \<and> TotalRevenue (CalculateContentROI (roiInput 0 0)) \<le> 0
   \<and> PaybackPeriod (CalculateContentROI (roiInput 0 0)) = Finite (- 1)
   \<and> TotalInvestment (CalculateContentROI (roiInput 200 500)) > 0
   \<and> ROIPercentage (CalculateContentROI (roiInput 200 500)) = 150"
proof -
  have i0: "TotalInvestment (CalculateContentROI (roiInput 0 0)) = 0"
    by (simp add: CalculateContentROI_def Let_def roiInput_def calculateTotalInvestment_def)
  have r0: "TotalRevenue (CalculateContentROI (roiInput 0 0)) = 0"
    by (simp add: CalculateContentROI_def Let_def roiInput_def calculateDirectRevenue_def
        calculateIndirectRevenue_def)
  have i1: "TotalInvestment (CalculateContentROI (roiInput 200 500)) = 200"
    by (simp add: CalculateContentROI_def Let_def roiInput_def calculateTotalInvestment_def)
  have r1: "TotalRevenue (CalculateContentROI (roiInput 200 500)) = 500"
    by (simp add: CalculateContentROI_def Let_def roiInput_def calculateDirectRevenue_def
        calculateIndirectRevenue_def)
  show ?thesis
    using roi_percentage_and_payback [of "roiInput 0 0"]
      roi_percentage_and_payback [of "roiInput 200 500"] i0 r0 i1 r1
    by simp
qed


subsection \<open>Lead scorer\<close>


























text \<open>
  Claim C5. \<open>scoreWebsiteActivity\<close> divides the page views by the visit count without a
  test of the visit count. With 10 page views and a visit count of 0 the quotient is
  \<open>+Inf\<close>, the test \<open>avgPagesPerSession >= 5\<close> succeeds and the depth-of-visit rule adds
  its highest value, 25; with 0 page views and a visit count of 0 the quotient is NaN, every
  test fails and the rule adds nothing.
\<close>

theorem website_activity_zero_visit_count:
  "avgPagesPerSession (behaviorOf 10 0 0 0) = PosInf
   \<and> scoreWebsiteActivity (behaviorOf 10 0 0 0) = 25
   \<and> avgPagesPerSession (behaviorOf 0 0 0 0) = NaN
   \<and> scoreWebsiteActivity (behaviorOf 0 0 0 0) = 0"
  by (simp add: avgPagesPerSession_def scoreWebsiteActivity_def behaviorOf_def fdiv_def
      Min64_def Let_def)

subsection \<open>Trend analyzer\<close>

text \<open>
  Claim C4. For a series of fewer than 2 points \<open>AnalyzeTrends\<close> returns the status
  \<open>insufficient_data\<close> with \<open>Points\<close> the length of the series and every other field
  at its zero value: no regression is computed. For a series of at least 2 points the
  status is not \<open>insufficient_data\<close>.
\<close>

theorem insufficient_data_status:
  "(length data < 2 \<longrightarrow>
      Status (fst (AnalyzeTrends data)) = ''insufficient_data''
      \<and> Points (fst (AnalyzeTrends data)) = int (length data)
      \<and> LinearRegression (fst (AnalyzeTrends data)) = zeroLinearRegression
      \<and> fst (AnalyzeTrends data)
          = zeroTrendAnalysis \<lparr> Status := ''insufficient_data'', Points := int (length data) \<rparr>)
   \<and> (2 \<le> length data \<longrightarrow> Status (fst (AnalyzeTrends data)) \<noteq> ''insufficient_data'')"
  by (simp add: AnalyzeTrends_def zeroTrendAnalysis_def Let_def split_beta)

theorem insufficient_data_status_witness:
  "length [\<lparr> Date = 5, Value = 1 \<rparr>] < 2
   \<and> Status (fst (AnalyzeTrends [\<lparr> Date = 5, Value = 1 \<rparr>])) = ''insufficient_data''
   \<and> Points (fst (AnalyzeTrends [\<lparr> Date = 5, Value = 1 \<rparr>])) = 1
   \<and> 2 \<le> length (dailySeries 0 [1, 2, 3])
   \<and> Status (fst (AnalyzeTrends (dailySeries 0 [1, 2, 3]))) \<noteq> ''insufficient_data''"
  using insufficient_data_status [of "[\<lparr> Date = 5, Value = 1 \<rparr>]"]
    insufficient_data_status [of "dailySeries 0 [1, 2, 3]"]
  by (simp add: dailySeries_def)




















































subsection \<open>SEO analyzer\<close>

lemma Min64_range: "0 \<le> x \<Longrightarrow> 0 \<le> Min64 x 100 \<and> Min64 x 100 \<le> 100"
  by (simp add: Min64_def)

lemma percentage_range:
  assumes "0 \<le> a" "a \<le> int n" "0 < n"
  shows "0 \<le> real_of_int a / real n * 100 \<and> real_of_int a / real n * 100 \<le> 100"
proof -
  have "real_of_int a \<le> real n" using assms(2) by linarith
  then have le1: "real_of_int a / real n \<le> 1" using assms(3) by simp
  have ge0: "0 \<le> real_of_int a / real n" using assms by simp
  from le1 have "real_of_int a / real n * 100 \<le> 1 * 100"
    by (rule mult_right_mono) simp
  moreover from ge0 have "0 \<le> real_of_int a / real n * 100"
    by (rule mult_nonneg_nonneg) simp
  ultimately show ?thesis by simp
qed

lemma title_scores:
  "0 \<le> tLengthScore (analyzeTitleSEO t k) \<and> tLengthScore (analyzeTitleSEO t k) \<le> 100
   \<and> 0 \<le> tKeywordScore (analyzeTitleSEO t k) \<and> tKeywordScore (analyzeTitleSEO t k) \<le> 100
   \<and> 0 \<le> PowerWordScore (analyzeTitleSEO t k) \<and> PowerWordScore (analyzeTitleSEO t k) \<le> 100"
  by (simp add: analyzeTitleSEO_def Let_def split_beta Min64_def)

lemma meta_scores:
  "0 \<le> mLengthScore (analyzeMetaDescription d k) \<and> mLengthScore (analyzeMetaDescription d k) \<le> 100
   \<and> 0 \<le> mKeywordScore (analyzeMetaDescription d k) \<and> mKeywordScore (analyzeMetaDescription d k) \<le> 100
   \<and> 0 \<le> CTAScore (analyzeMetaDescription d k) \<and> CTAScore (analyzeMetaDescription d k) \<le> 100"
  by (simp add: analyzeMetaDescription_def Let_def split_beta)

lemma structure_scores:
  "0 \<le> WordCountScore (analyzeContentStructure c h) \<and> WordCountScore (analyzeContentStructure c h) \<le> 100
   \<and> 0 \<le> H1Score (analyzeContentStructure c h) \<and> H1Score (analyzeContentStructure c h) \<le> 100
   \<and> 0 \<le> H2Score (analyzeContentStructure c h) \<and> H2Score (analyzeContentStructure c h) \<le> 100
   \<and> 0 \<le> ParagraphScore (analyzeContentStructure c h) \<and> ParagraphScore (analyzeContentStructure c h) \<le> 100"
  by (simp add: analyzeContentStructure_def Let_def split_beta)

lemma keyword_scores:
  "0 \<le> PrimaryKeywordScore (analyzeKeywordOptimization c)
   \<and> PrimaryKeywordScore (analyzeKeywordOptimization c) \<le> 100
   \<and> 0 \<le> IntroKeywordScore (analyzeKeywordOptimization c)
   \<and> IntroKeywordScore (analyzeKeywordOptimization c) \<le> 100
   \<and> 0 \<le> LSIScore (analyzeKeywordOptimization c) \<and> LSIScore (analyzeKeywordOptimization c) \<le> 100"
  by (simp add: analyzeKeywordOptimization_def zeroKeywordAnalysis_def Let_def split_beta Min64_def)

lemma readability_scores:
  "0 \<le> FleschScore (analyzeReadability c) \<and> FleschScore (analyzeReadability c) \<le> 100
   \<and> 0 \<le> ReadabilityScore (analyzeReadability c) \<and> ReadabilityScore (analyzeReadability c) \<le> 100
   \<and> 0 \<le> TransitionWordScore (analyzeReadability c)
   \<and> TransitionWordScore (analyzeReadability c) \<le> 100"
  by (simp add: analyzeReadability_def zeroReadabilityAnalysis_def Let_def split_beta
      Min64_def Max64_def)

lemma url_scores:
  "0 \<le> uLengthScore (analyzeURL u k) \<and> uLengthScore (analyzeURL u k) \<le> 100
   \<and> 0 \<le> uKeywordScore (analyzeURL u k) \<and> uKeywordScore (analyzeURL u k) \<le> 100
   \<and> 0 \<le> StructureScore (analyzeURL u k) \<and> StructureScore (analyzeURL u k) \<le> 100"
  by (simp add: analyzeURL_def Let_def split_beta)

lemma technical_scores:
  "0 \<le> SchemaScore (analyzeTechnicalSEO c) \<and> SchemaScore (analyzeTechnicalSEO c) \<le> 100
   \<and> 0 \<le> CanonicalScore (analyzeTechnicalSEO c) \<and> CanonicalScore (analyzeTechnicalSEO c) \<le> 100
   \<and> 0 \<le> LoadTimeScore (analyzeTechnicalSEO c) \<and> LoadTimeScore (analyzeTechnicalSEO c) \<le> 100
   \<and> 0 \<le> MobileScore (analyzeTechnicalSEO c) \<and> MobileScore (analyzeTechnicalSEO c) \<le> 100
   \<and> URLAnalysis (analyzeTechnicalSEO c) = analyzeURL (cURL c) (cPrimaryKeyword c)"
  by (simp add: analyzeTechnicalSEO_def Let_def split_beta)

lemma anchor_scores:
  "0 \<le> DiversityScore (analyzeAnchorTexts ls) \<and> DiversityScore (analyzeAnchorTexts ls) \<le> 100"
  by (simp add: analyzeAnchorTexts_def zeroAnchorTextAnalysis_def Let_def Min64_def)

lemma link_scores:
  "0 \<le> InternalLinkScore (analyzeLinkStructure i e) \<and> InternalLinkScore (analyzeLinkStructure i e) \<le> 100
   \<and> 0 \<le> ExternalLinkScore (analyzeLinkStructure i e) \<and> ExternalLinkScore (analyzeLinkStructure i e) \<le> 100
   \<and> AnchorTextAnalysis (analyzeLinkStructure i e) = analyzeAnchorTexts (i @ e)"
  by (simp add: analyzeLinkStructure_def Let_def split_beta)

lemma image_scores:
  "0 \<le> AltTextScore (analyzeImageOptimization is) \<and> AltTextScore (analyzeImageOptimization is) \<le> 100
   \<and> 0 \<le> TitleScore (analyzeImageOptimization is) \<and> TitleScore (analyzeImageOptimization is) \<le> 100
   \<and> 0 \<le> FileNameScore (analyzeImageOptimization is) \<and> FileNameScore (analyzeImageOptimization is) \<le> 100
   \<and> 0 \<le> ImageScore (analyzeImageOptimization is) \<and> ImageScore (analyzeImageOptimization is) \<le> 100"
proof (cases "length is = 0")
  case True
  then show ?thesis by (simp add: analyzeImageOptimization_def)
next
  case False
  then have n: "0 < length is" by simp
  define a where "a = real_of_int (int (length (filter (\<lambda>image. AltText image \<noteq> '''') is))) / real (length is) * 100"
  define b where "b = real_of_int (int (length (filter (\<lambda>image. iTitle image \<noteq> '''') is))) / real (length is) * 100"
  define c where "c = real_of_int (int (length (filter (\<lambda>image. isOptimizedFileName (FileName image)) is))) / real (length is) * 100"
  have a: "0 \<le> a \<and> a \<le> 100" unfolding a_def using n by (intro percentage_range) simp_all
  have b: "0 \<le> b \<and> b \<le> 100" unfolding b_def using n by (intro percentage_range) simp_all
  have c: "0 \<le> c \<and> c \<le> 100" unfolding c_def using n by (intro percentage_range) simp_all
  have s: "0 \<le> a * 0.5 + b * 0.2 + c * 0.3 \<and> a * 0.5 + b * 0.2 + c * 0.3 \<le> 100"
    using a b c by simp
  have "analyzeImageOptimization is =
      \<lparr> Images = is, ImageCount = int (length is),
        ImagesWithAltText = int (length (filter (\<lambda>image. AltText image \<noteq> '''') is)),
        ImagesWithTitle = int (length (filter (\<lambda>image. iTitle image \<noteq> '''') is)),
        OptimizedFileNames = int (length (filter (\<lambda>image. isOptimizedFileName (FileName image)) is)),
        AltTextScore = a, TitleScore = b, FileNameScore = c,
        ImageScore = a * 0.5 + b * 0.2 + c * 0.3 \<rparr>"
    using False unfolding analyzeImageOptimization_def Let_def a_def b_def c_def by simp
  then show ?thesis using a b c s by simp
qed

lemma calculateOverallSEOScore_range:
  assumes "0 \<le> tLengthScore (TitleAnalysis a)" "0 \<le> tKeywordScore (TitleAnalysis a)"
    "0 \<le> mLengthScore (MetaAnalysis a)" "0 \<le> mKeywordScore (MetaAnalysis a)"
    "0 \<le> WordCountScore (StructureAnalysis a)" "0 \<le> H1Score (StructureAnalysis a)"
    "0 \<le> H2Score (StructureAnalysis a)"
    "0 \<le> PrimaryKeywordScore (KeywordAnalysis a)"
    "0 \<le> ReadabilityScore (ReadabilityAnalysis a)"
    "0 \<le> SchemaScore (TechnicalAnalysis a)" "0 \<le> CanonicalScore (TechnicalAnalysis a)"
    "0 \<le> LoadTimeScore (TechnicalAnalysis a)"
    "0 \<le> InternalLinkScore (LinkAnalysis a)" "0 \<le> ExternalLinkScore (LinkAnalysis a)"
    "0 \<le> ImageScore (ImageAnalysis a)"
  shows "0 \<le> calculateOverallSEOScore a \<and> calculateOverallSEOScore a \<le> 100"
proof -
  define total where "total =
      (real_of_int (tLengthScore (TitleAnalysis a)) + real_of_int (tKeywordScore (TitleAnalysis a))) / 2 * 0.15
    + (real_of_int (mLengthScore (MetaAnalysis a)) + real_of_int (mKeywordScore (MetaAnalysis a))) / 2 * 0.10
    + (real_of_int (WordCountScore (StructureAnalysis a)) + real_of_int (H1Score (StructureAnalysis a))
        + real_of_int (H2Score (StructureAnalysis a))) / 3 * 0.20
    + real_of_int (PrimaryKeywordScore (KeywordAnalysis a)) * 0.20
    + real_of_int (ReadabilityScore (ReadabilityAnalysis a)) * 0.15
    + (real_of_int (SchemaScore (TechnicalAnalysis a)) + real_of_int (CanonicalScore (TechnicalAnalysis a))
        + real_of_int (LoadTimeScore (TechnicalAnalysis a))) / 3 * 0.10
    + (real_of_int (InternalLinkScore (LinkAnalysis a)) + real_of_int (ExternalLinkScore (LinkAnalysis a))) / 2 * 0.05
    + ImageScore (ImageAnalysis a) * 0.05"
  have eq: "calculateOverallSEOScore a = toInt (Min64 total 100)"
    unfolding calculateOverallSEOScore_def Let_def total_def by simp
  have "0 \<le> total"
    unfolding total_def using assms
    by (intro add_nonneg_nonneg mult_nonneg_nonneg divide_nonneg_nonneg) simp_all
  then have "0 \<le> toInt (Min64 total 100)"
    by (intro toInt_nonneg Min64_nonneg) simp_all
  moreover have "toInt (Min64 total 100) \<le> 100"
    by (rule toInt_le) (simp add: Min64_le)
  ultimately show ?thesis by (simp add: eq)
qed

lemma AnalyzeContent_fields:
  "TitleAnalysis (AnalyzeContent now c) = analyzeTitleSEO (cTitle c) (cPrimaryKeyword c)"
  "MetaAnalysis (AnalyzeContent now c) = analyzeMetaDescription (cMetaDescription c) (cPrimaryKeyword c)"
  "StructureAnalysis (AnalyzeContent now c) = analyzeContentStructure (Content c) (cHeadings c)"
  "KeywordAnalysis (AnalyzeContent now c) = analyzeKeywordOptimization c"
  "ReadabilityAnalysis (AnalyzeContent now c) = analyzeReadability (Content c)"
  "TechnicalAnalysis (AnalyzeContent now c) = analyzeTechnicalSEO c"
  "LinkAnalysis (AnalyzeContent now c) = analyzeLinkStructure (cInternalLinks c) (cExternalLinks c)"
  "ImageAnalysis (AnalyzeContent now c) = analyzeImageOptimization (cImages c)"
  "AnalyzedAt (AnalyzeContent now c) = now"
  by (simp_all add: AnalyzeContent_def Let_def)

lemma OverallScore_range:
  "0 \<le> OverallScore (AnalyzeContent now c) \<and> OverallScore (AnalyzeContent now c) \<le> 100"
proof -
  define a where "a =
     \<lparr> ContentID = cID c, aTitle = cTitle c, aURL = cURL c, AnalyzedAt = now,
       OverallScore = 0,
       TitleAnalysis = analyzeTitleSEO (cTitle c) (cPrimaryKeyword c),
       MetaAnalysis = analyzeMetaDescription (cMetaDescription c) (cPrimaryKeyword c),
       StructureAnalysis = analyzeContentStructure (Content c) (cHeadings c),
       KeywordAnalysis = analyzeKeywordOptimization c,
       ReadabilityAnalysis = analyzeReadability (Content c),
       TechnicalAnalysis = analyzeTechnicalSEO c,
       LinkAnalysis = analyzeLinkStructure (cInternalLinks c) (cExternalLinks c),
       ImageAnalysis = analyzeImageOptimization (cImages c),
       Recommendations = [], Opportunities = [] \<rparr>"
  have eq: "OverallScore (AnalyzeContent now c) = calculateOverallSEOScore a"
    by (simp add: AnalyzeContent_def Let_def a_def)
  have "0 \<le> calculateOverallSEOScore a \<and> calculateOverallSEOScore a \<le> 100"
    by (rule calculateOverallSEOScore_range)
       (simp_all add: a_def title_scores meta_scores structure_scores keyword_scores
          readability_scores technical_scores link_scores image_scores)
  then show ?thesis by (simp add: eq)
qed

text \<open>
  Claim C2. Every score that \<open>AnalyzeContent\<close> returns lies between 0 and 100: the scores
  of the title, meta description, structure, keyword, readability, technical (with the
  URL analysis), link (with the anchor-text diversity) and image analyses, and the overall
  score.
\<close>

theorem seo_scores_in_range:
  "(let a = AnalyzeContent now content in
     tLengthScore (TitleAnalysis a) \<in> {0..100}
     \<and> tKeywordScore (TitleAnalysis a) \<in> {0..100}
     \<and> PowerWordScore (TitleAnalysis a) \<in> {0..100}
     \<and> mLengthScore (MetaAnalysis a) \<in> {0..100}
     \<and> mKeywordScore (MetaAnalysis a) \<in> {0..100}
     \<and> CTAScore (MetaAnalysis a) \<in> {0..100}
     \<and> WordCountScore (StructureAnalysis a) \<in> {0..100}
     \<and> H1Score (StructureAnalysis a) \<in> {0..100}
     \<and> H2Score (StructureAnalysis a) \<in> {0..100}
     \<and> ParagraphScore (StructureAnalysis a) \<in> {0..100}
     \<and> PrimaryKeywordScore (KeywordAnalysis a) \<in> {0..100}
     \<and> IntroKeywordScore (KeywordAnalysis a) \<in> {0..100}
     \<and> LSIScore (KeywordAnalysis a) \<in> {0..100}
     \<and> FleschScore (ReadabilityAnalysis a) \<in> {0..100}
     \<and> ReadabilityScore (ReadabilityAnalysis a) \<in> {0..100}
     \<and> TransitionWordScore (ReadabilityAnalysis a) \<in> {0..100}
     \<and> uLengthScore (URLAnalysis (TechnicalAnalysis a)) \<in> {0..100}
     \<and> uKeywordScore (URLAnalysis (TechnicalAnalysis a)) \<in> {0..100}
     \<and> StructureScore (URLAnalysis (TechnicalAnalysis a)) \<in> {0..100}
     \<and> SchemaScore (TechnicalAnalysis a) \<in> {0..100}
     \<and> CanonicalScore (TechnicalAnalysis a) \<in> {0..100}
     \<and> LoadTimeScore (TechnicalAnalysis a) \<in> {0..100}
     \<and> MobileScore (TechnicalAnalysis a) \<in> {0..100}
     \<and> InternalLinkScore (LinkAnalysis a) \<in> {0..100}
     \<and> ExternalLinkScore (LinkAnalysis a) \<in> {0..100}
     \<and> DiversityScore (AnchorTextAnalysis (LinkAnalysis a)) \<in> {0..100}
     \<and> AltTextScore (ImageAnalysis a) \<in> {0..100}
     \<and> TitleScore (ImageAnalysis a) \<in> {0..100}
     \<and> FileNameScore (ImageAnalysis a) \<in> {0..100}
     \<and> ImageScore (ImageAnalysis a) \<in> {0..100}
     \<and> OverallScore a \<in> {0..100})"
  unfolding Let_def atLeastAtMost_iff AnalyzeContent_fields
  using title_scores [of "cTitle content" "cPrimaryKeyword content"]
    meta_scores [of "cMetaDescription content" "cPrimaryKeyword content"]
    structure_scores [of "Content content" "cHeadings content"]
    keyword_scores [of content]
    readability_scores [of "Content content"]
    technical_scores [of content]
    url_scores [of "cURL content" "cPrimaryKeyword content"]
    link_scores [of "cInternalLinks content" "cExternalLinks content"]
    anchor_scores [of "cInternalLinks content @ cExternalLinks content"]
    image_scores [of "cImages content"]
    OverallScore_range [of now content]
  by simp




end
